theory Spec2Isabelle
  imports Main "HOL-Library.AList" "HOL-Library.Sublist"
begin

section \<open>Values and strings\<close>

text \<open>
  The values that reach the client's methods: \<open>None\<close>, booleans, integers (unbounded) and
  strings. These are the values the type hints of \<open>client.py\<close> admit
  (\<open>str\<close>, \<open>int\<close>, \<open>str | None\<close>), plus \<open>bool\<close>, which Python makes a subclass of
  \<open>int\<close>. Floating-point numbers and user-defined objects are outside the model.

  A string is a list of characters. \<open>char\<close> has 256 values, so a string of the model is a
  Python string whose code points are all below 256; the classification of characters
  below is Python's for that range.
\<close>

datatype pyval = VNone | VBool bool | VInt int | VStr string

text \<open>\<open>isinstance(value, int)\<close> holds for integers and for booleans.\<close>

fun isinstance_int :: "pyval \<Rightarrow> bool" where
  "isinstance_int (VInt n) = True"
| "isinstance_int (VBool b) = True"
| "isinstance_int v = False"

fun isinstance_str :: "pyval \<Rightarrow> bool" where
  "isinstance_str (VStr s) = True"
| "isinstance_str v = False"

text \<open>
  Python's \<open>==\<close> on these values: a boolean equals the integer 0 or 1 it stands for,
  values of unrelated types are unequal. \<open>x in [a, b, ...]\<close> compares \<open>x\<close> with each
  element in turn.
\<close>

fun py_eq :: "pyval \<Rightarrow> pyval \<Rightarrow> bool" where
  "py_eq VNone VNone = True"
| "py_eq (VBool a) (VBool b) = (a = b)"
| "py_eq (VBool a) (VInt n) = ((if a then 1 else 0) = n)"
| "py_eq (VInt n) (VBool a) = (n = (if a then 1 else 0))"
| "py_eq (VInt m) (VInt n) = (m = n)"
| "py_eq (VStr s) (VStr t) = (s = t)"
| "py_eq u v = False"

definition py_in :: "pyval \<Rightarrow> pyval list \<Rightarrow> bool" where
  "py_in x xs = list_ex (py_eq x) xs"

text \<open>
  \<open>str.isdigit\<close> is true of a character whose Unicode numeric type is Digit or Decimal:
  below 256 these are \<open>0\<close> to \<open>9\<close> and the superscripts two, three and one
  (U+00B2, U+00B3, U+00B9). \<open>str.strip\<close> removes the characters \<open>str.isspace\<close> accepts:
  below 256 these are U+0009 to U+000D, U+001C to U+0020, U+0085 and U+00A0.
\<close>

definition isdigit_char :: "char \<Rightarrow> bool" where
  "isdigit_char c =
     (let n = (of_char c :: nat)
      in (48 \<le> n \<and> n \<le> 57) \<or> n = 178 \<or> n = 179 \<or> n = 185)"

definition isspace_char :: "char \<Rightarrow> bool" where
  "isspace_char c =
     (let n = (of_char c :: nat)
      in (9 \<le> n \<and> n \<le> 13) \<or> (28 \<le> n \<and> n \<le> 32) \<or> n = 133 \<or> n = 160)"

text \<open>\<open>s.isdigit()\<close>: the string is not empty and every character is a digit.\<close>

definition str_isdigit :: "string \<Rightarrow> bool" where
  "str_isdigit s = (s \<noteq> [] \<and> list_all isdigit_char s)"

text \<open>\<open>s.strip()\<close>: leading and trailing whitespace removed.\<close>

definition str_strip :: "string \<Rightarrow> string" where
  "str_strip s = rev (dropWhile isspace_char (rev (dropWhile isspace_char s)))"

text \<open>
  \<open>s.split(sep)\<close> for a one-character separator: the maximal separator-free pieces, in
  order; the empty string gives one empty piece.
\<close>

fun str_split :: "string \<Rightarrow> char \<Rightarrow> string list" where
  "str_split [] sep = [[]]"
| "str_split (c # cs) sep =
     (if c = sep then [] # str_split cs sep
      else (case str_split cs sep of
              [] \<Rightarrow> [[c]]
            | p # ps \<Rightarrow> (c # p) # ps))"

text \<open>\<open>sep.join(parts)\<close>, the inverse of \<open>str_split\<close>.\<close>

fun str_join :: "char \<Rightarrow> string list \<Rightarrow> string" where
  "str_join sep [] = []"
| "str_join sep [p] = p"
| "str_join sep (p # q # ps) = p @ sep # str_join sep (q # ps)"

text \<open>\<open>str(n)\<close> for an integer: its decimal digits, after a minus sign when negative.\<close>

definition digit_char :: "nat \<Rightarrow> char" where
  "digit_char d = ''0123456789'' ! (d mod 10)"

fun str_nat :: "nat \<Rightarrow> string" where
  "str_nat n = (if n < 10 then [digit_char n] else str_nat (n div 10) @ [digit_char (n mod 10)])"

declare str_nat.simps [simp del]

definition str_int :: "int \<Rightarrow> string" where
  "str_int n = (if n < 0 then CHR ''-'' # str_nat (nat (- n)) else str_nat (nat n))"

section \<open>Requests, responses and the world\<close>

text \<open>
  A Python \<open>dict\<close> keeps its keys in insertion order: it is an association list with
  distinct keys, and \<open>d[k] = v\<close> is \<open>AList.update k v d\<close>, which replaces the value of
  a key that is present and appends a key that is not. Dictionaries are mutable objects:
  they live in a heap and are passed by reference.
\<close>

type_synonym dict = "(string \<times> pyval) list"

type_synonym ref = nat

text \<open>A JSON document as \<open>Response.json()\<close> returns it; the client never looks inside.\<close>

datatype json =
    JNull | JBool bool | JInt int | JStr string | JArray "json list" | JObject "(string \<times> json) list"

datatype category = Warning | DeprecationWarning

text \<open>
  The exceptions a call can end with. \<open>WarningError\<close> is a warning raised as an exception:
  an instance of the warning's category carrying its message.
\<close>

datatype error =
    ValueError string
  | TypeError string
  | AttributeError string
  | RequestException string
  | JSONDecodeError string
  | WarningError category string

text \<open>One call of \<open>requests.get\<close>: the URL and the keyword arguments it receives.\<close>

record request =
  req_url :: string
  req_params :: dict
  req_timeout :: pyval
  req_headers :: "dict option"

record response =
  status_code :: nat
  body :: string

text \<open>One call of \<open>warnings.warn\<close>.\<close>

record warning =
  message :: string
  warning_category :: category
  stacklevel :: nat

text \<open>
  What the warnings filter in force decides for a warning: the action \<open>error\<close> raises it as
  an exception, \<open>ignore\<close> drops it, and the other actions (\<open>default\<close>, \<open>always\<close>,
  \<open>module\<close>, \<open>once\<close>) show it, the once-only ones unless they have shown it before.
\<close>

datatype action = Raise | Ignore | Show

text \<open>A calendar date, as \<open>datetime.date\<close> holds it.\<close>

record date =
  year :: nat
  month :: nat
  day :: nat

text \<open>
  What the client reads from outside: the local date, the HTTP transport (which may fail,
  and whose answer may depend on the requests made before), the JSON decoder, and the
  warnings filter (whose decision may depend on the warnings shown before).
\<close>

record env =
  today :: date
  http_get :: "request list \<Rightarrow> request \<Rightarrow> error + response"
  json_loads :: "string \<Rightarrow> error + json"
  warning_action :: "warning list \<Rightarrow> warning \<Rightarrow> action"

text \<open>
  What a call changes: the heap of dictionaries, the log of calls to \<open>requests.get\<close> and
  the log of the warnings shown.
\<close>

record world =
  heap :: "ref \<Rightarrow> dict"
  next_ref :: ref
  sent :: "request list"
  warned :: "warning list"

text \<open>What a method returns: a \<open>requests.Response\<close> object or a decoded JSON value.\<close>

datatype retval = RResponse response | RJson json

type_synonym outcome = "(error + retval) \<times> world"

definition new_dict :: "dict \<Rightarrow> world \<Rightarrow> ref \<times> world" where
  "new_dict d w =
     (next_ref w, w\<lparr>heap := (heap w)(next_ref w := d), next_ref := Suc (next_ref w)\<rparr>)"

text \<open>
  \<open>warnings.warn(msg, cat, stacklevel=lvl)\<close>: the filter decides. A warning turned into an
  error is raised and nothing is shown; an ignored one leaves no trace; otherwise the
  warning is shown and the call returns.
\<close>

definition warn ::
  "env \<Rightarrow> string \<Rightarrow> category \<Rightarrow> nat \<Rightarrow> world \<Rightarrow> error option \<times> world" where
  "warn env msg cat lvl w =
     (let x = \<lparr>message = msg, warning_category = cat, stacklevel = lvl\<rparr>
      in case warning_action env (warned w) x of
           Raise \<Rightarrow> (Some (WarningError cat msg), w)
         | Ignore \<Rightarrow> (None, w)
         | Show \<Rightarrow> (None, w\<lparr>warned := warned w @ [x]\<rparr>))"

text \<open>A parameter with a default value: \<open>None\<close> stands for an argument the call leaves out.\<close>

definition arg_or :: "pyval \<Rightarrow> pyval option \<Rightarrow> pyval" where
  "arg_or d a = (case a of None \<Rightarrow> d | Some v \<Rightarrow> v)"

text \<open>
  \<open>date.strftime("%Y-%m-%d")\<close>: the year as a decimal number of at least four digits,
  month and day of at least two, padded with zeros.
\<close>

definition zfill :: "nat \<Rightarrow> string \<Rightarrow> string" where
  "zfill n s = replicate (n - length s) CHR ''0'' @ s"

definition strftime_Ymd :: "date \<Rightarrow> string" where
  "strftime_Ymd d =
     zfill 4 (str_nat (year d)) @ ''-'' @ zfill 2 (str_nat (month d)) @ ''-''
       @ zfill 2 (str_nat (day d))"

section \<open>The client\<close>

text \<open>\<open>RAClient.__init__\<close> stores the API key (line 18).\<close>

record RAClient =
  api_key :: pyval

definition init :: "pyval \<Rightarrow> RAClient" where
  "init key = \<lparr>api_key = key\<rparr>"

subsection \<open>The CSV-or-integer validator\<close>

text \<open>
  \<open>is_valid_game_csv\<close> (lines 29 to 49): an \<open>int\<close> instance is valid; a string is valid
  when every part of \<open>value.split(",")\<close> that is not empty is, once stripped, a string of
  digits; anything else is invalid.
\<close>

definition is_valid_game_csv :: "RAClient \<Rightarrow> pyval \<Rightarrow> bool" where
  "is_valid_game_csv self v =
     (if isinstance_int v then True
      else if isinstance_str v then
        (case v of
           VStr s \<Rightarrow>
             list_all (\<lambda>part. str_isdigit (str_strip part))
               (filter (\<lambda>part. part \<noteq> []) (str_split s CHR '',''))
         | _ \<Rightarrow> False)
      else False)"

subsection \<open>Authentication parameter and dispatcher\<close>

definition BASE_URL :: string where
  "BASE_URL = ''https://retroachievements.org/API/''"

text \<open>
  \<open>url_params\<close> (lines 20 to 27): a missing \<open>params\<close> becomes a new empty dictionary;
  the dictionary is then updated in place with the key \<open>y\<close>, and the same object is returned.
\<close>

definition url_params :: "RAClient \<Rightarrow> ref option \<Rightarrow> world \<Rightarrow> ref \<times> world" where
  "url_params self params w =
     (let (p, w1) = (case params of None \<Rightarrow> new_dict [] w | Some p \<Rightarrow> (p, w))
      in (p, w1\<lparr>heap := (heap w1)(p := AList.update ''y'' (api_key self) (heap w1 p))\<rparr>))"

text \<open>
  \<open>_call_api\<close> (lines 52 to 67): a missing endpoint is the empty string, a missing timeout
  is 30; the value returned is what \<open>requests.get\<close> returns.
\<close>

definition call_api ::
  "env \<Rightarrow> RAClient \<Rightarrow> string option \<Rightarrow> ref option \<Rightarrow> pyval option \<Rightarrow> dict option
     \<Rightarrow> world \<Rightarrow> outcome" where
  "call_api env self endpoint params timeout_arg headers w =
     (let endpoint1 = (case endpoint of None \<Rightarrow> [] | Some e \<Rightarrow> e);
          timeout = arg_or (VInt 30) timeout_arg;
          (p, w1) = url_params self params w;
          rq = \<lparr>req_url = BASE_URL @ endpoint1, req_params = heap w1 p,
                req_timeout = timeout, req_headers = headers\<rparr>;
          w2 = w1\<lparr>sent := sent w1 @ [rq]\<rparr>
      in case http_get env (sent w1) rq of
           Inl e \<Rightarrow> (Inl e, w2)
         | Inr r \<Rightarrow> (Inr (RResponse r), w2))"

text \<open>\<open>.json()\<close> on the value a call returned: only a response has the method.\<close>

definition json_method :: "env \<Rightarrow> retval \<Rightarrow> error + retval" where
  "json_method env v =
     (case v of
        RResponse r \<Rightarrow>
          (case json_loads env (body r) of Inl e \<Rightarrow> Inl e | Inr j \<Rightarrow> Inr (RJson j))
      | RJson j \<Rightarrow> Inl (AttributeError ''json''))"

text \<open>
  The two lines every endpoint wrapper ends with,
  \<open>result = self._call_api(endpoint, {...}).json()\<close> and \<open>return result\<close>:
  the dictionary literal is a new object.
\<close>

definition call_json :: "env \<Rightarrow> RAClient \<Rightarrow> string \<Rightarrow> dict \<Rightarrow> world \<Rightarrow> outcome" where
  "call_json env self endpoint d w =
     (let (p, w1) = new_dict d w
      in case call_api env self (Some endpoint) (Some p) None None w1 of
           (Inl e, w2) \<Rightarrow> (Inl e, w2)
         | (Inr v, w2) \<Rightarrow> (json_method env v, w2))"

text \<open>
  The dispatcher as the specification words it: it sends the request and returns the
  response body parsed as JSON.
\<close>

definition dispatch_spec ::
  "env \<Rightarrow> RAClient \<Rightarrow> string option \<Rightarrow> ref option \<Rightarrow> pyval option \<Rightarrow> dict option
     \<Rightarrow> world \<Rightarrow> outcome" where
  "dispatch_spec env self endpoint params timeout_arg headers w =
     (case call_api env self endpoint params timeout_arg headers w of
        (Inl e, w2) \<Rightarrow> (Inl e, w2)
      | (Inr v, w2) \<Rightarrow> (json_method env v, w2))"

section \<open>The endpoint wrappers\<close>

text \<open>
  Each wrapper takes the parameters of its signature: a parameter without a default value
  is an argument of the definition, a parameter with a default value is an optional
  argument. A \<open>raise\<close> returns the error with the world as it is at that point.
\<close>

subsection \<open>User endpoints\<close>

text \<open>\<open>get_user_profile\<close> (lines 71 to 82).\<close>

definition get_user_profile ::
  "env \<Rightarrow> RAClient \<Rightarrow> pyval \<Rightarrow> pyval
     \<Rightarrow> world \<Rightarrow> outcome" where
  "get_user_profile env self user ulid w =
     call_json env self ''API_GetUserProfile.php?''
       [(''u'', user), (''i'', ulid)] w"

text \<open>\<open>get_user_recent_achievements\<close> (lines 84 to 95).\<close>

definition get_user_recent_achievements ::
  "env \<Rightarrow> RAClient \<Rightarrow> pyval \<Rightarrow> pyval option
     \<Rightarrow> world \<Rightarrow> outcome" where
  "get_user_recent_achievements env self user minutes_arg w =
     (let minutes = arg_or (VInt 60) minutes_arg
      in call_json env self ''API_GetUserRecentAchievements.php?''
           [(''u'', user), (''m'', minutes)] w)"

text \<open>\<open>get_user_achievements_earned_between\<close> (lines 97 to 111).\<close>

definition get_user_achievements_earned_between ::
  "env \<Rightarrow> RAClient \<Rightarrow> pyval \<Rightarrow> pyval \<Rightarrow> pyval
     \<Rightarrow> world \<Rightarrow> outcome" where
  "get_user_achievements_earned_between env self user start end' w =
     call_json env self ''API_GetAchievementsEarnedBetween.php?''
       [(''u'', user), (''s'', start), (''e'', end')] w"

text \<open>
  \<open>get_user_achievements_earned_on_day\<close> (lines 113 to 126). The signature gives \<open>date\<close>
  no default value, so Python rejects a call that leaves it out with a \<open>TypeError\<close> before
  the body runs; the body replaces a \<open>date\<close> that is \<open>None\<close> by today's date.
\<close>

definition get_user_achievements_earned_on_day ::
  "env \<Rightarrow> RAClient \<Rightarrow> pyval \<Rightarrow> pyval option \<Rightarrow> world \<Rightarrow> outcome" where
  "get_user_achievements_earned_on_day env self user date_arg w =
     (case date_arg of
        None \<Rightarrow> (Inl (TypeError ''missing 1 required positional argument: date''), w)
      | Some date0 \<Rightarrow>
          (let date = (if date0 = VNone then VStr (strftime_Ymd (today env)) else date0)
           in call_json env self ''API_GetAchievementsEarnedOnDay.php?''
                [(''u'', user), (''d'', date)] w))"

text \<open>\<open>get_game_info_and_user_progress\<close> (lines 128 to 144).\<close>

definition get_game_info_and_user_progress ::
  "env \<Rightarrow> RAClient \<Rightarrow> pyval \<Rightarrow> pyval \<Rightarrow> pyval option
     \<Rightarrow> world \<Rightarrow> outcome" where
  "get_game_info_and_user_progress env self user game awards_arg w =
     (let awards = arg_or (VInt 0) awards_arg
      in if \<not> py_in awards [VInt 0, VInt 1] then
           (Inl (ValueError ''Invalid awards value. Must be 0 or 1.''), w)
         else call_json env self ''API_GetGameInfoAndUserProgress.php?''
                [(''u'', user), (''g'', game), (''a'', awards)] w)"

text \<open>\<open>get_user_completion_progress\<close> (lines 146 to 160).\<close>

definition get_user_completion_progress ::
  "env \<Rightarrow> RAClient \<Rightarrow> pyval \<Rightarrow> pyval option \<Rightarrow> pyval option
     \<Rightarrow> world \<Rightarrow> outcome" where
  "get_user_completion_progress env self user count_arg offset_arg w =
     (let count = arg_or (VInt 100) count_arg;
          offset = arg_or (VInt 0) offset_arg
      in call_json env self ''API_GetUserCompletionProgress.php?''
           [(''u'', user), (''c'', count), (''o'', offset)] w)"

text \<open>\<open>get_user_awards\<close> (lines 162 to 170).\<close>

definition get_user_awards ::
  "env \<Rightarrow> RAClient \<Rightarrow> pyval
     \<Rightarrow> world \<Rightarrow> outcome" where
  "get_user_awards env self user w =
     call_json env self ''API_GetUserAwards.php?''
       [(''u'', user)] w"

text \<open>\<open>get_user_claims\<close> (lines 172 to 180).\<close>

definition get_user_claims ::
  "env \<Rightarrow> RAClient \<Rightarrow> pyval
     \<Rightarrow> world \<Rightarrow> outcome" where
  "get_user_claims env self user w =
     call_json env self ''API_GetUserClaims.php?''
       [(''u'', user)] w"

text \<open>\<open>get_user_game_rank_and_score\<close> (lines 182 to 193).\<close>

definition get_user_game_rank_and_score ::
  "env \<Rightarrow> RAClient \<Rightarrow> pyval \<Rightarrow> pyval
     \<Rightarrow> world \<Rightarrow> outcome" where
  "get_user_game_rank_and_score env self user game w =
     call_json env self ''API_GetUserGameRankAndScore.php?''
       [(''u'', user), (''g'', game)] w"

text \<open>\<open>get_user_points\<close> (lines 195 to 203).\<close>

definition get_user_points ::
  "env \<Rightarrow> RAClient \<Rightarrow> pyval
     \<Rightarrow> world \<Rightarrow> outcome" where
  "get_user_points env self user w =
     call_json env self ''API_GetUserPoints.php?''
       [(''u'', user)] w"

text \<open>
  \<open>get_user_progress\<close> (lines 205 to 227). The advisory comes first (lines 216 to 220);
  when \<open>warnings.warn\<close> raises, the method ends there.
\<close>

definition user_progress_advisory :: string where
  "user_progress_advisory =
     ''Unless you are explicitly wanting summary progress details for ''
     @ ''specific game IDS, get_user_completion_progress will almost certainly ''
     @ ''be better-suited for your use case.''"

definition get_user_progress ::
  "env \<Rightarrow> RAClient \<Rightarrow> pyval \<Rightarrow> pyval
     \<Rightarrow> world \<Rightarrow> outcome" where
  "get_user_progress env self user game w =
     (case warn env user_progress_advisory Warning 2 w of
        (Some e, w1) \<Rightarrow> (Inl e, w1)
      | (None, w1) \<Rightarrow>
          if \<not> is_valid_game_csv self game then
            (Inl (ValueError ''Invalid game ID or CSV format''), w1)
          else call_json env self ''API_GetUserProgress.php?''
                 [(''u'', user), (''i'', game)] w1)"

text \<open>\<open>get_user_recently_played_games\<close> (lines 229 to 243).\<close>

definition get_user_recently_played_games ::
  "env \<Rightarrow> RAClient \<Rightarrow> pyval \<Rightarrow> pyval option \<Rightarrow> pyval option
     \<Rightarrow> world \<Rightarrow> outcome" where
  "get_user_recently_played_games env self user count_arg offset_arg w =
     (let count = arg_or (VInt 10) count_arg;
          offset = arg_or (VInt 0) offset_arg
      in call_json env self ''API_GetUserRecentlyPlayedGames.php?''
           [(''u'', user), (''c'', count), (''o'', offset)] w)"

text \<open>
  \<open>get_user_summary\<close> (lines 245 to 271). The two string literals of the advisory are
  adjacent in the source, so they are joined without a space.
\<close>

definition user_summary_advisory :: string where
  "user_summary_advisory =
     ''This endpoint is known to be slow, and often results in ''
     @ ''over-fetching. For basic user profile information, try the ''
     @ ''get_user_profile endpoint. For user completion and game progress ''
     @ ''information, try the get_user_completion_progress endpoint.Recent ''
     @ ''achievements are pulled from recent games, so if you ask for 1 game ''
     @ ''and 10 achievements, and the user has only earned 8 achievements in ''
     @ ''the most recent game, you'll only get 8 recent achievements back. ''
     @ ''Similarly, with the default of 0 recent games, no recent achievements ''
     @ ''will be returned.''"

definition get_user_summary ::
  "env \<Rightarrow> RAClient \<Rightarrow> pyval \<Rightarrow> pyval option \<Rightarrow> pyval option
     \<Rightarrow> world \<Rightarrow> outcome" where
  "get_user_summary env self user recent_games_arg recent_cheevos_arg w =
     (let recent_games = arg_or (VInt 0) recent_games_arg;
          recent_cheevos = arg_or (VInt 10) recent_cheevos_arg
      in case warn env user_summary_advisory Warning 2 w of
           (Some e, w1) \<Rightarrow> (Inl e, w1)
         | (None, w1) \<Rightarrow>
             call_json env self ''API_GetUserSummary.php?''
               [(''u'', user), (''g'', recent_games), (''a'', recent_cheevos)] w1)"

text \<open>\<open>get_user_completed_games\<close> (lines 273 to 289).\<close>

definition user_completed_games_advisory :: string where
  "user_completed_games_advisory =
     ''This endpoint is considered 'legacy'. The ''
     @ ''get_user_completion_progress endpoint will almost always be a better ''
     @ ''fit for your use case.''"

definition get_user_completed_games ::
  "env \<Rightarrow> RAClient \<Rightarrow> pyval
     \<Rightarrow> world \<Rightarrow> outcome" where
  "get_user_completed_games env self user w =
     (case warn env user_completed_games_advisory DeprecationWarning 2 w of
        (Some e, w1) \<Rightarrow> (Inl e, w1)
      | (None, w1) \<Rightarrow>
          call_json env self ''API_GetUserCompletedGames.php?''
            [(''u'', user)] w1)"

text \<open>\<open>get_user_want_to_play_list\<close> (lines 291 to 305).\<close>

definition get_user_want_to_play_list ::
  "env \<Rightarrow> RAClient \<Rightarrow> pyval \<Rightarrow> pyval option \<Rightarrow> pyval option
     \<Rightarrow> world \<Rightarrow> outcome" where
  "get_user_want_to_play_list env self user count_arg offset_arg w =
     (let count = arg_or (VInt 100) count_arg;
          offset = arg_or (VInt 0) offset_arg
      in call_json env self ''API_GetUserWantToPlayList.php?''
           [(''u'', user), (''c'', count), (''o'', offset)] w)"

text \<open>\<open>get_users_i_follow\<close> (lines 307 to 319).\<close>

definition get_users_i_follow ::
  "env \<Rightarrow> RAClient \<Rightarrow> pyval \<Rightarrow> pyval option \<Rightarrow> pyval option
     \<Rightarrow> world \<Rightarrow> outcome" where
  "get_users_i_follow env self user count_arg offset_arg w =
     (let count = arg_or (VInt 100) count_arg;
          offset = arg_or (VInt 0) offset_arg
      in call_json env self ''API_GetUsersIFollow.php?''
           [(''u'', user), (''c'', count), (''o'', offset)] w)"

text \<open>\<open>get_users_following_me\<close> (lines 321 to 335).\<close>

definition get_users_following_me ::
  "env \<Rightarrow> RAClient \<Rightarrow> pyval \<Rightarrow> pyval option \<Rightarrow> pyval option
     \<Rightarrow> world \<Rightarrow> outcome" where
  "get_users_following_me env self user count_arg offset_arg w =
     (let count = arg_or (VInt 100) count_arg;
          offset = arg_or (VInt 0) offset_arg
      in call_json env self ''API_GetUsersFollowingMe.php?''
           [(''u'', user), (''c'', count), (''o'', offset)] w)"

text \<open>\<open>get_user_set_requests\<close> (lines 337 to 351).\<close>

definition get_user_set_requests ::
  "env \<Rightarrow> RAClient \<Rightarrow> pyval \<Rightarrow> pyval option
     \<Rightarrow> world \<Rightarrow> outcome" where
  "get_user_set_requests env self user list_type_arg w =
     (let list_type = arg_or (VInt 0) list_type_arg
      in if \<not> py_in list_type [VInt 0, VInt 1] then
           (Inl (ValueError ''Invalid list type. Must be 0 or 1.''), w)
         else call_json env self ''API_GetUserSetRequests.php?''
                [(''u'', user), (''t'', list_type)] w)"

subsection \<open>Game endpoints\<close>

text \<open>\<open>get_game\<close> (lines 355 to 363).\<close>

definition get_game ::
  "env \<Rightarrow> RAClient \<Rightarrow> pyval
     \<Rightarrow> world \<Rightarrow> outcome" where
  "get_game env self game w =
     call_json env self ''API_GetGame.php?''
       [(''i'', game)] w"

text \<open>\<open>get_game_extended\<close> (lines 365 to 378).\<close>

definition get_game_extended ::
  "env \<Rightarrow> RAClient \<Rightarrow> pyval \<Rightarrow> pyval option
     \<Rightarrow> world \<Rightarrow> outcome" where
  "get_game_extended env self game set_level_arg w =
     (let set_level = arg_or (VInt 3) set_level_arg
      in if \<not> py_in set_level [VInt 3, VInt 5] then
           (Inl (ValueError ''Invalid set type selected. Must be 3 or 5.''), w)
         else call_json env self ''API_GetGameExtended.php?''
                [(''i'', game), (''f'', set_level)] w)"

text \<open>\<open>get_game_hashes\<close> (lines 380 to 388).\<close>

definition get_game_hashes ::
  "env \<Rightarrow> RAClient \<Rightarrow> pyval
     \<Rightarrow> world \<Rightarrow> outcome" where
  "get_game_hashes env self game w =
     call_json env self ''API_GetGameHashes.php?''
       [(''i'', game)] w"

text \<open>\<open>get_achievement_count\<close> (lines 390 to 398).\<close>

definition get_achievement_count ::
  "env \<Rightarrow> RAClient \<Rightarrow> pyval
     \<Rightarrow> world \<Rightarrow> outcome" where
  "get_achievement_count env self game w =
     call_json env self ''API_GetAchievementCount.php?''
       [(''i'', game)] w"

text \<open>\<open>get_achievement_distribution\<close> (lines 400 to 419).\<close>

definition get_achievement_distribution ::
  "env \<Rightarrow> RAClient \<Rightarrow> pyval \<Rightarrow> pyval option \<Rightarrow> pyval option
     \<Rightarrow> world \<Rightarrow> outcome" where
  "get_achievement_distribution env self game achievement_type_arg set_level_arg w =
     (let achievement_type = arg_or (VInt 0) achievement_type_arg;
          set_level = arg_or (VInt 3) set_level_arg
      in if \<not> py_in achievement_type [VInt 0, VInt 1] then
           (Inl (ValueError ''Invalid achievement type. Must be 0 or 1.''), w)
         else if \<not> py_in set_level [VInt 3, VInt 5] then
           (Inl (ValueError ''Invalid set type selected. Must be 3 or 5.''), w)
         else call_json env self ''API_GetAchievementDistribution.php?''
                [(''i'', game), (''h'', achievement_type), (''f'', set_level)] w)"

text \<open>\<open>get_game_rank_and_score\<close> (lines 421 to 434).\<close>

definition get_game_rank_and_score ::
  "env \<Rightarrow> RAClient \<Rightarrow> pyval \<Rightarrow> pyval option
     \<Rightarrow> world \<Rightarrow> outcome" where
  "get_game_rank_and_score env self game list_type_arg w =
     (let list_type = arg_or (VInt 0) list_type_arg
      in if \<not> py_in list_type [VInt 0, VInt 1] then
           (Inl (ValueError ''Invalid list type. Must be 0 or 1.''), w)
         else call_json env self ''API_GetGameRankAndScore.php?''
                [(''g'', game), (''t'', list_type)] w)"

subsection \<open>Leaderboard endpoints\<close>

text \<open>\<open>get_game_leaderboards\<close> (lines 438 to 452).\<close>

definition get_game_leaderboards ::
  "env \<Rightarrow> RAClient \<Rightarrow> pyval \<Rightarrow> pyval option \<Rightarrow> pyval option
     \<Rightarrow> world \<Rightarrow> outcome" where
  "get_game_leaderboards env self game count_arg offset_arg w =
     (let count = arg_or (VInt 100) count_arg;
          offset = arg_or (VInt 0) offset_arg
      in call_json env self ''API_GetGameLeaderboards.php?''
           [(''i'', game), (''c'', count), (''o'', offset)] w)"

text \<open>\<open>get_leaderboard_entries\<close> (lines 454 to 469).\<close>

definition get_leaderboard_entries ::
  "env \<Rightarrow> RAClient \<Rightarrow> pyval \<Rightarrow> pyval option \<Rightarrow> pyval option
     \<Rightarrow> world \<Rightarrow> outcome" where
  "get_leaderboard_entries env self leaderboard count_arg offset_arg w =
     (let count = arg_or (VInt 100) count_arg;
          offset = arg_or (VInt 0) offset_arg
      in call_json env self ''API_GetLeaderboardEntries.php?''
           [(''i'', leaderboard), (''c'', count), (''o'', offset)] w)"

text \<open>\<open>get_user_game_leaderboards\<close> (lines 471 to 487).\<close>

definition get_user_game_leaderboards ::
  "env \<Rightarrow> RAClient \<Rightarrow> pyval \<Rightarrow> pyval \<Rightarrow> pyval option \<Rightarrow> pyval option
     \<Rightarrow> world \<Rightarrow> outcome" where
  "get_user_game_leaderboards env self game user count_arg offset_arg w =
     (let count = arg_or (VInt 200) count_arg;
          offset = arg_or (VInt 0) offset_arg
      in call_json env self ''API_GetUserGameLeaderboards.php?''
           [(''i'', game), (''u'', user), (''c'', count), (''o'', offset)] w)"

subsection \<open>System endpoints\<close>

text \<open>\<open>get_console_ids\<close> (lines 491 to 499).\<close>

definition get_console_ids ::
  "env \<Rightarrow> RAClient
     \<Rightarrow> world \<Rightarrow> outcome" where
  "get_console_ids env self w =
     call_json env self ''API_GetConsoleIDs.php?''
       [] w"

text \<open>\<open>get_game_list\<close> (lines 501 to 517).\<close>

definition get_game_list ::
  "env \<Rightarrow> RAClient \<Rightarrow> pyval \<Rightarrow> pyval option \<Rightarrow> pyval option
     \<Rightarrow> world \<Rightarrow> outcome" where
  "get_game_list env self system has_cheevos_arg hashes_arg w =
     (let has_cheevos = arg_or (VInt 0) has_cheevos_arg;
          hashes = arg_or (VInt 0) hashes_arg
      in if \<not> py_in has_cheevos [VInt 0, VInt 1] then
           (Inl (ValueError ''Invalid has_cheevos value. Must be 0 or 1.''), w)
         else if \<not> py_in hashes [VInt 0, VInt 1] then
           (Inl (ValueError ''Invalid hashes value. Must be 0 or 1.''), w)
         else call_json env self ''API_GetGameList.php?''
                [(''i'', system), (''f'', has_cheevos), (''h'', hashes)] w)"

subsection \<open>Achievement endpoints\<close>

text \<open>\<open>get_achievement_unlocks\<close> (lines 521 to 536).\<close>

definition get_achievement_unlocks ::
  "env \<Rightarrow> RAClient \<Rightarrow> pyval \<Rightarrow> pyval option \<Rightarrow> pyval option
     \<Rightarrow> world \<Rightarrow> outcome" where
  "get_achievement_unlocks env self achievement count_arg offset_arg w =
     (let count = arg_or (VInt 50) count_arg;
          offset = arg_or (VInt 0) offset_arg
      in call_json env self ''API_GetAchievementUnlocks.php?''
           [(''a'', achievement), (''c'', count), (''o'', offset)] w)"

subsection \<open>Comment endpoints\<close>

text \<open>\<open>get_comments\<close> (lines 540 to 568).\<close>

definition get_comments ::
  "env \<Rightarrow> RAClient \<Rightarrow> pyval \<Rightarrow> pyval \<Rightarrow> pyval option \<Rightarrow> pyval option \<Rightarrow> pyval option
     \<Rightarrow> world \<Rightarrow> outcome" where
  "get_comments env self game target count_arg offset_arg sort_arg w =
     (let count = arg_or (VInt 100) count_arg;
          offset = arg_or (VInt 0) offset_arg;
          sort = arg_or (VStr ''submitted'') sort_arg
      in if \<not> py_in target [VInt 1, VInt 2, VInt 3] then
           (Inl (ValueError ''Invalid target type. Must be 1 (game), 2 (achievement), or 3 (user/ulid).''), w)
         else if \<not> py_in sort [VStr ''submitted'', VStr ''-submitted''] then
           (Inl (ValueError ''Invalid sort order. Must be 'submitted' or '-submitted'.''), w)
         else call_json env self ''API_GetComments.php?''
                [(''i'', game), (''t'', target), (''c'', count), (''o'', offset), (''sort'', sort)] w)"

subsection \<open>Feed endpoints\<close>

text \<open>\<open>get_recent_game_awards\<close> (lines 571 to 602).\<close>

definition get_recent_game_awards ::
  "env \<Rightarrow> RAClient \<Rightarrow> pyval option \<Rightarrow> pyval option \<Rightarrow> pyval option \<Rightarrow> pyval option
     \<Rightarrow> world \<Rightarrow> outcome" where
  "get_recent_game_awards env self date_arg offset_arg count_arg kind_arg w =
     (let date0 = arg_or VNone date_arg;
          offset = arg_or (VInt 0) offset_arg;
          count = arg_or (VInt 25) count_arg;
          kind = arg_or VNone kind_arg;
          date = (if date0 = VNone then VStr (strftime_Ymd (today env)) else date0)
      in if kind \<noteq> VNone
            \<and> \<not> py_in kind [VStr ''beaten-softcore'', VStr ''beaten-hardcore'',
                              VStr ''completed'', VStr ''mastered''] then
           (Inl (ValueError (''Invalid kind value. Must be one of 'beaten-softcore', 'beaten-''
                             @ ''hardcore', 'completed', or 'mastered'.'')), w)
         else call_json env self ''API_GetRecentGameAwards.php?''
                [(''d'', date), (''o'', offset), (''c'', count), (''k'', kind)] w)"

text \<open>\<open>get_active_claims\<close> (lines 604 to 612).\<close>

definition get_active_claims ::
  "env \<Rightarrow> RAClient
     \<Rightarrow> world \<Rightarrow> outcome" where
  "get_active_claims env self w =
     call_json env self ''API_GetActiveClaims.php?''
       [] w"

text \<open>\<open>get_inactive_claims\<close> (lines 614 to 626).\<close>

definition get_inactive_claims ::
  "env \<Rightarrow> RAClient \<Rightarrow> pyval option
     \<Rightarrow> world \<Rightarrow> outcome" where
  "get_inactive_claims env self kind_arg w =
     (let kind = arg_or (VInt 1) kind_arg
      in if \<not> py_in kind [VInt 1, VInt 2, VInt 3] then
           (Inl (ValueError ''Invalid kind value. Must be 1 (completed), 2 (dropped) or 3 (expired).''), w)
         else call_json env self ''API_GetInactiveClaims.php?''
                [(''k'', kind)] w)"

text \<open>\<open>get_top_ten_users\<close> (lines 628 to 636).\<close>

definition get_top_ten_users ::
  "env \<Rightarrow> RAClient
     \<Rightarrow> world \<Rightarrow> outcome" where
  "get_top_ten_users env self w =
     call_json env self ''API_GetTopTenUsers.php?''
       [] w"

subsection \<open>Event endpoints\<close>

text \<open>\<open>get_achievement_of_the_week\<close> (lines 640 to 648).\<close>

definition get_achievement_of_the_week ::
  "env \<Rightarrow> RAClient
     \<Rightarrow> world \<Rightarrow> outcome" where
  "get_achievement_of_the_week env self w =
     call_json env self ''API_GetAchievementOfTheWeek.php?''
       [] w"

subsection \<open>Ticket endpoints\<close>

text \<open>\<open>get_ticket_data\<close> (lines 652 to 660).\<close>

definition get_ticket_data ::
  "env \<Rightarrow> RAClient \<Rightarrow> pyval
     \<Rightarrow> world \<Rightarrow> outcome" where
  "get_ticket_data env self ticket_id w =
     call_json env self ''API_GetTicketData.php?''
       [(''i'', ticket_id)] w"

text \<open>\<open>get_most_ticketed_games\<close> (lines 662 to 670).\<close>

definition get_most_ticketed_games ::
  "env \<Rightarrow> RAClient \<Rightarrow> pyval option
     \<Rightarrow> world \<Rightarrow> outcome" where
  "get_most_ticketed_games env self focus_arg w =
     (let focus = arg_or (VInt 1) focus_arg
      in call_json env self ''API_GetTicketData.php?''
           [(''f'', focus)] w)"

text \<open>\<open>get_most_recent_tickets\<close> (lines 672 to 683).\<close>

definition get_most_recent_tickets ::
  "env \<Rightarrow> RAClient \<Rightarrow> pyval option \<Rightarrow> pyval option
     \<Rightarrow> world \<Rightarrow> outcome" where
  "get_most_recent_tickets env self count_arg offset_arg w =
     (let count = arg_or (VInt 10) count_arg;
          offset = arg_or (VInt 0) offset_arg
      in call_json env self ''API_GetTicketData.php?''
           [(''c'', count), (''o'', offset)] w)"

text \<open>\<open>get_game_ticket_stats\<close> (lines 685 to 701).\<close>

definition get_game_ticket_stats ::
  "env \<Rightarrow> RAClient \<Rightarrow> pyval \<Rightarrow> pyval option \<Rightarrow> pyval option
     \<Rightarrow> world \<Rightarrow> outcome" where
  "get_game_ticket_stats env self game focus_arg depth_arg w =
     (let focus = arg_or (VInt 3) focus_arg;
          depth = arg_or (VInt 0) depth_arg
      in if \<not> py_in focus [VInt 3, VInt 5] then
           (Inl (ValueError ''Invalid focus value. Must be 3 (official) or 5 (unofficial).''), w)
         else call_json env self ''API_GetTicketData.php?''
                [(''g'', game), (''f'', focus), (''d'', depth)] w)"

text \<open>\<open>get_developer_ticket_stats\<close> (lines 703 to 714).\<close>

definition get_developer_ticket_stats ::
  "env \<Rightarrow> RAClient \<Rightarrow> pyval \<Rightarrow> pyval
     \<Rightarrow> world \<Rightarrow> outcome" where
  "get_developer_ticket_stats env self username ulid w =
     call_json env self ''API_GetTicketData.php?''
       [(''u'', username), (''i'', ulid)] w"

text \<open>\<open>get_achievement_ticket_stats\<close> (lines 716 to 724).\<close>

definition get_achievement_ticket_stats ::
  "env \<Rightarrow> RAClient \<Rightarrow> pyval
     \<Rightarrow> world \<Rightarrow> outcome" where
  "get_achievement_ticket_stats env self achievement w =
     call_json env self ''API_GetTicketData.php?''
       [(''a'', achievement)] w"

subsection \<open>Calls\<close>

text \<open>A call of any one of the endpoint wrappers, with its arguments.\<close>

datatype api_call =
    Get_user_profile pyval pyval
  | Get_user_recent_achievements pyval "pyval option"
  | Get_user_achievements_earned_between pyval pyval pyval
  | Get_user_achievements_earned_on_day pyval "pyval option"
  | Get_game_info_and_user_progress pyval pyval "pyval option"
  | Get_user_completion_progress pyval "pyval option" "pyval option"
  | Get_user_awards pyval
  | Get_user_claims pyval
  | Get_user_game_rank_and_score pyval pyval
  | Get_user_points pyval
  | Get_user_progress pyval pyval
  | Get_user_recently_played_games pyval "pyval option" "pyval option"
  | Get_user_summary pyval "pyval option" "pyval option"
  | Get_user_completed_games pyval
  | Get_user_want_to_play_list pyval "pyval option" "pyval option"
  | Get_users_i_follow pyval "pyval option" "pyval option"
  | Get_users_following_me pyval "pyval option" "pyval option"
  | Get_user_set_requests pyval "pyval option"
  | Get_game pyval
  | Get_game_extended pyval "pyval option"
  | Get_game_hashes pyval
  | Get_achievement_count pyval
  | Get_achievement_distribution pyval "pyval option" "pyval option"
  | Get_game_rank_and_score pyval "pyval option"
  | Get_game_leaderboards pyval "pyval option" "pyval option"
  | Get_leaderboard_entries pyval "pyval option" "pyval option"
  | Get_user_game_leaderboards pyval pyval "pyval option" "pyval option"
  | Get_console_ids
  | Get_game_list pyval "pyval option" "pyval option"
  | Get_achievement_unlocks pyval "pyval option" "pyval option"
  | Get_comments pyval pyval "pyval option" "pyval option" "pyval option"
  | Get_recent_game_awards "pyval option" "pyval option" "pyval option" "pyval option"
  | Get_active_claims
  | Get_inactive_claims "pyval option"
  | Get_top_ten_users
  | Get_achievement_of_the_week
  | Get_ticket_data pyval
  | Get_most_ticketed_games "pyval option"
  | Get_most_recent_tickets "pyval option" "pyval option"
  | Get_game_ticket_stats pyval "pyval option" "pyval option"
  | Get_developer_ticket_stats pyval pyval
  | Get_achievement_ticket_stats pyval

fun invoke :: "env \<Rightarrow> RAClient \<Rightarrow> api_call \<Rightarrow> world \<Rightarrow> outcome" where
  "invoke env self (Get_user_profile a1 a2) w = get_user_profile env self a1 a2 w"
| "invoke env self (Get_user_recent_achievements a1 a2) w = get_user_recent_achievements env self a1 a2 w"
| "invoke env self (Get_user_achievements_earned_between a1 a2 a3) w = get_user_achievements_earned_between env self a1 a2 a3 w"
| "invoke env self (Get_user_achievements_earned_on_day a1 a2) w = get_user_achievements_earned_on_day env self a1 a2 w"
| "invoke env self (Get_game_info_and_user_progress a1 a2 a3) w = get_game_info_and_user_progress env self a1 a2 a3 w"
| "invoke env self (Get_user_completion_progress a1 a2 a3) w = get_user_completion_progress env self a1 a2 a3 w"
| "invoke env self (Get_user_awards a1) w = get_user_awards env self a1 w"
| "invoke env self (Get_user_claims a1) w = get_user_claims env self a1 w"
| "invoke env self (Get_user_game_rank_and_score a1 a2) w = get_user_game_rank_and_score env self a1 a2 w"
| "invoke env self (Get_user_points a1) w = get_user_points env self a1 w"
| "invoke env self (Get_user_progress a1 a2) w = get_user_progress env self a1 a2 w"
| "invoke env self (Get_user_recently_played_games a1 a2 a3) w = get_user_recently_played_games env self a1 a2 a3 w"
| "invoke env self (Get_user_summary a1 a2 a3) w = get_user_summary env self a1 a2 a3 w"
| "invoke env self (Get_user_completed_games a1) w = get_user_completed_games env self a1 w"
| "invoke env self (Get_user_want_to_play_list a1 a2 a3) w = get_user_want_to_play_list env self a1 a2 a3 w"
| "invoke env self (Get_users_i_follow a1 a2 a3) w = get_users_i_follow env self a1 a2 a3 w"
| "invoke env self (Get_users_following_me a1 a2 a3) w = get_users_following_me env self a1 a2 a3 w"
| "invoke env self (Get_user_set_requests a1 a2) w = get_user_set_requests env self a1 a2 w"
| "invoke env self (Get_game a1) w = get_game env self a1 w"
| "invoke env self (Get_game_extended a1 a2) w = get_game_extended env self a1 a2 w"
| "invoke env self (Get_game_hashes a1) w = get_game_hashes env self a1 w"
| "invoke env self (Get_achievement_count a1) w = get_achievement_count env self a1 w"
| "invoke env self (Get_achievement_distribution a1 a2 a3) w = get_achievement_distribution env self a1 a2 a3 w"
| "invoke env self (Get_game_rank_and_score a1 a2) w = get_game_rank_and_score env self a1 a2 w"
| "invoke env self (Get_game_leaderboards a1 a2 a3) w = get_game_leaderboards env self a1 a2 a3 w"
| "invoke env self (Get_leaderboard_entries a1 a2 a3) w = get_leaderboard_entries env self a1 a2 a3 w"
| "invoke env self (Get_user_game_leaderboards a1 a2 a3 a4) w = get_user_game_leaderboards env self a1 a2 a3 a4 w"
| "invoke env self Get_console_ids w = get_console_ids env self w"
| "invoke env self (Get_game_list a1 a2 a3) w = get_game_list env self a1 a2 a3 w"
| "invoke env self (Get_achievement_unlocks a1 a2 a3) w = get_achievement_unlocks env self a1 a2 a3 w"
| "invoke env self (Get_comments a1 a2 a3 a4 a5) w = get_comments env self a1 a2 a3 a4 a5 w"
| "invoke env self (Get_recent_game_awards a1 a2 a3 a4) w = get_recent_game_awards env self a1 a2 a3 a4 w"
| "invoke env self Get_active_claims w = get_active_claims env self w"
| "invoke env self (Get_inactive_claims a1) w = get_inactive_claims env self a1 w"
| "invoke env self Get_top_ten_users w = get_top_ten_users env self w"
| "invoke env self Get_achievement_of_the_week w = get_achievement_of_the_week env self w"
| "invoke env self (Get_ticket_data a1) w = get_ticket_data env self a1 w"
| "invoke env self (Get_most_ticketed_games a1) w = get_most_ticketed_games env self a1 w"
| "invoke env self (Get_most_recent_tickets a1 a2) w = get_most_recent_tickets env self a1 a2 w"
| "invoke env self (Get_game_ticket_stats a1 a2 a3) w = get_game_ticket_stats env self a1 a2 a3 w"
| "invoke env self (Get_developer_ticket_stats a1 a2) w = get_developer_ticket_stats env self a1 a2 w"
| "invoke env self (Get_achievement_ticket_stats a1) w = get_achievement_ticket_stats env self a1 w"

section \<open>Auxiliary definitions for the properties\<close>

text \<open>The path of a URL: what precedes the question mark that opens the query.\<close>

definition url_path :: "string \<Rightarrow> string" where
  "url_path u = takeWhile (\<lambda>c. c \<noteq> CHR ''?'') u"

text \<open>
  A sample environment (the server answers every request with the body \<open>[]\<close>, every
  warning is shown), the same environment under a filter that turns every warning into an
  error, and the world before the first call: no dictionary allocated, nothing sent, no
  advisory shown.
\<close>

definition example_env :: env where
  "example_env =
     \<lparr>today = \<lparr>year = 2026, month = 3, day = 7\<rparr>,
      http_get = (\<lambda>history rq. Inr \<lparr>status_code = 200, body = ''[]''\<rparr>),
      json_loads = (\<lambda>s. if s = ''[]'' then Inr (JArray []) else Inl (JSONDecodeError s)),
      warning_action = (\<lambda>shown x. Show)\<rparr>"

definition strict_env :: env where
  "strict_env = example_env\<lparr>warning_action := (\<lambda>shown x. Raise)\<rparr>"

definition empty_world :: world where
  "empty_world = \<lparr>heap = (\<lambda>r. []), next_ref = 0, sent = [], warned = []\<rparr>"


section \<open>Properties of the string functions and the validator\<close>

lemma str_split_not_Nil: "str_split s sep \<noteq> []"
  by (induction s) (auto split: list.splits)

lemma str_join_split: "str_join sep (str_split s sep) = s"
proof (induction s)
  case Nil
  show ?case by simp
next
  case (Cons c cs)
  show ?case
  proof (cases "c = sep")
    case True
    obtain p ps where "str_split cs sep = p # ps"
      using str_split_not_Nil [of cs sep] by (cases "str_split cs sep") auto
    with Cons True show ?thesis by simp
  next
    case False
    obtain p ps where e: "str_split cs sep = p # ps"
      using str_split_not_Nil [of cs sep] by (cases "str_split cs sep") auto
    with Cons False show ?thesis by (cases ps) auto
  qed
qed

lemma str_split_sep_free: "p \<in> set (str_split s sep) \<Longrightarrow> sep \<notin> set p"
  by (induction s arbitrary: p) (auto split: if_splits list.splits)

lemma str_split_no_sep: "sep \<notin> set s \<Longrightarrow> str_split s sep = [s]"
  by (induction s) auto

lemma str_split_append: "str_split (a @ sep # b) sep = str_split a sep @ str_split b sep"
proof (induction a)
  case Nil
  show ?case by simp
next
  case (Cons c cs)
  obtain p ps where e: "str_split cs sep = p # ps"
    using str_split_not_Nil [of cs sep] by (cases "str_split cs sep") auto
  with Cons show ?case by auto
qed

lemma str_split_join:
  "ps \<noteq> [] \<Longrightarrow> \<forall>p \<in> set ps. sep \<notin> set p \<Longrightarrow> str_split (str_join sep ps) sep = ps"
proof (induction sep ps rule: str_join.induct)
  case (1 sep)
  then show ?case by simp
next
  case (2 sep p)
  then show ?case by (simp add: str_split_no_sep)
next
  case (3 sep p q ps)
  then show ?case by (simp add: str_split_append str_split_no_sep)
qed

lemma str_strip_all_space:
  assumes "list_all isspace_char s"
  shows "str_strip s = []"
proof -
  have h: "dropWhile isspace_char s = []"
    using assms by (simp add: list_all_iff)
  show ?thesis unfolding str_strip_def h by simp
qed

lemma str_strip_core:
  assumes "list_all isspace_char l" "list_all isspace_char r" "core \<noteq> []"
    "\<not> isspace_char (hd core)" "\<not> isspace_char (last core)"
  shows "str_strip (l @ core @ r) = core"
proof -
  have a: "dropWhile isspace_char (l @ core @ r) = core @ r"
    using assms by (cases core) (auto simp: dropWhile_append list_all_iff)
  have b: "dropWhile isspace_char (rev r @ rev core) = rev core"
    using assms by (cases core rule: rev_cases) (auto simp: dropWhile_append list_all_iff)
  show ?thesis by (simp add: str_strip_def a b)
qed

lemma digit_char_in: "digit_char d \<in> set ''0123456789''"
  unfolding digit_char_def by (rule nth_mem) simp

lemma str_nat_digits: "set (str_nat n) \<subseteq> set ''0123456789''"
proof (induction n rule: str_nat.induct)
  case (1 n)
  show ?case
  proof (cases "n < 10")
    case True
    then have "str_nat n = [digit_char n]"
      by (subst str_nat.simps) simp
    then show ?thesis using digit_char_in [of n] by simp
  next
    case False
    then have "str_nat n = str_nat (n div 10) @ [digit_char (n mod 10)]"
      by (subst str_nat.simps) simp
    with False 1 digit_char_in [of "n mod 10"] show ?thesis by auto
  qed
qed

lemma str_nat_not_Nil: "str_nat n \<noteq> []"
  by (subst str_nat.simps) simp

lemma decimal_char_facts:
  assumes "c \<in> set ''0123456789''"
  shows "c \<noteq> CHR '',''" "\<not> isspace_char c" "isdigit_char c"
  using assms by (auto simp: isspace_char_def isdigit_char_def)

text \<open>
  Claim C10. The validator treats a negative integer and its decimal rendering differently:
  for every negative integer \<open>n\<close>, \<open>is_valid_game_csv(n)\<close> is true, while
  \<open>is_valid_game_csv(str(n))\<close>, whose argument starts with a minus sign, is false.
\<close>

theorem negative_int_asym:
  assumes "n < 0"
  shows "is_valid_game_csv self (VInt n) \<and> \<not> is_valid_game_csv self (VStr (str_int n))"
proof -
  define ds where "ds = str_nat (nat (- n))"
  have s: "str_int n = CHR ''-'' # ds"
    using assms by (simp add: str_int_def ds_def)
  have dig: "set ds \<subseteq> set ''0123456789''" and ne: "ds \<noteq> []"
    by (simp_all only: ds_def str_nat_digits str_nat_not_Nil not_False_eq_True)
  have nocomma: "CHR '','' \<notin> set (CHR ''-'' # ds)"
    using dig decimal_char_facts(1) by auto
  have "last ds \<in> set ''0123456789''"
    using dig last_in_set [OF ne] by blast
  then have "\<not> isspace_char (last ds)"
    by (rule decimal_char_facts(2))
  then have lastd: "\<not> isspace_char (last (CHR ''-'' # ds))"
    using ne by simp
  have "str_strip ([] @ (CHR ''-'' # ds) @ []) = CHR ''-'' # ds"
    by (rule str_strip_core) (use lastd in \<open>simp_all add: isspace_char_def\<close>)
  then have strip: "str_strip (CHR ''-'' # ds) = CHR ''-'' # ds" by simp
  have "\<not> str_isdigit (CHR ''-'' # ds)"
    by (simp add: str_isdigit_def isdigit_char_def)
  then have "\<not> is_valid_game_csv self (VStr (str_int n))"
    by (simp add: is_valid_game_csv_def s str_split_no_sep [OF nocomma] strip del: str_split.simps)
  then show ?thesis by (simp add: is_valid_game_csv_def)
qed

theorem negative_int_asym_witness:
  "(-5::int) < 0 \<and> str_int (-5) = ''-5'' \<and> is_valid_game_csv (init (VStr ''k'')) (VInt (-5))
     \<and> \<not> is_valid_game_csv (init (VStr ''k'')) (VStr ''-5'')"
proof -
  have e: "str_int (-5) = ''-5''" by (simp add: str_int_def str_nat.simps digit_char_def)
  show ?thesis using negative_int_asym [of "-5" "init (VStr ''k'')"] by (simp add: e)
qed


lemma valid_str_iff:
  "is_valid_game_csv self (VStr s) \<longleftrightarrow>
     (\<forall>tok \<in> set (str_split s CHR '',''). tok \<noteq> [] \<longrightarrow>
        str_strip tok \<noteq> [] \<and> (\<forall>c \<in> set (str_strip tok). isdigit_char c))"
  by (auto simp: is_valid_game_csv_def list_all_iff str_isdigit_def)

lemma dropWhile_keeps: "c \<in> set xs \<Longrightarrow> \<not> P c \<Longrightarrow> c \<in> set (dropWhile P xs)"
  by (induction xs) auto

lemma str_strip_keeps:
  assumes "c \<in> set tok" "\<not> isspace_char c"
  shows "c \<in> set (str_strip tok)"
proof -
  have "c \<in> set (rev (dropWhile isspace_char tok))"
    using assms by (simp add: dropWhile_keeps)
  then have "c \<in> set (dropWhile isspace_char (rev (dropWhile isspace_char tok)))"
    using assms(2) by (rule dropWhile_keeps)
  then show ?thesis by (simp add: str_strip_def)
qed

text \<open>
  Claim C1. \<open>is_valid_game_csv\<close> is true of every \<open>int\<close> instance (every integer, and the
  booleans, which Python counts among them). Of a string it is true exactly when every
  part between commas that is not empty is, once stripped of surrounding whitespace, a
  non-empty string of digits; this holds for the parts \<open>split\<close> computes and for any
  comma-free tokens the string is joined from. So a trailing comma and a doubled comma
  change nothing, while a part made of whitespace only, or a part holding a character that
  is neither a digit nor whitespace, makes the result false. A value that is neither an
  \<open>int\<close> instance nor a string is invalid.
\<close>

theorem is_valid_game_csv_cases:
  "(isinstance_int v \<longrightarrow> is_valid_game_csv self v)
   \<and> is_valid_game_csv self (VInt n)
   \<and> (is_valid_game_csv self (VStr s) \<longleftrightarrow>
        (\<forall>tok \<in> set (str_split s CHR '',''). tok \<noteq> [] \<longrightarrow>
           str_strip tok \<noteq> [] \<and> (\<forall>c \<in> set (str_strip tok). isdigit_char c)))
   \<and> (toks \<noteq> [] \<and> (\<forall>t \<in> set toks. CHR '','' \<notin> set t) \<longrightarrow>
        (is_valid_game_csv self (VStr (str_join CHR '','' toks)) \<longleftrightarrow>
           (\<forall>t \<in> set toks. t \<noteq> [] \<longrightarrow>
              str_strip t \<noteq> [] \<and> (\<forall>c \<in> set (str_strip t). isdigit_char c))))
   \<and> is_valid_game_csv self (VStr (s @ '','')) = is_valid_game_csv self (VStr s)
   \<and> is_valid_game_csv self (VStr (a @ '',,'' @ b)) = is_valid_game_csv self (VStr (a @ '','' @ b))
   \<and> ((\<exists>tok \<in> set (str_split s CHR '',''). tok \<noteq> [] \<and> list_all isspace_char tok) \<longrightarrow>
        \<not> is_valid_game_csv self (VStr s))
   \<and> ((\<exists>tok \<in> set (str_split s CHR '',''). \<exists>c \<in> set tok. \<not> isdigit_char c \<and> \<not> isspace_char c) \<longrightarrow>
        \<not> is_valid_game_csv self (VStr s))
   \<and> (\<not> isinstance_int v \<and> \<not> isinstance_str v \<longrightarrow> \<not> is_valid_game_csv self v)"
proof (intro conjI impI)
  show "is_valid_game_csv self (VInt n)"
    by (simp add: is_valid_game_csv_def)
  show "is_valid_game_csv self (VStr s) \<longleftrightarrow>
        (\<forall>tok \<in> set (str_split s CHR '',''). tok \<noteq> [] \<longrightarrow>
           str_strip tok \<noteq> [] \<and> (\<forall>c \<in> set (str_strip tok). isdigit_char c))"
    by (rule valid_str_iff)
  show "is_valid_game_csv self (VStr (s @ '','')) = is_valid_game_csv self (VStr s)"
    using str_split_append [of s "CHR '',''" "[]"] by (simp add: valid_str_iff)
  have "str_split (a @ '',,'' @ b) CHR '','' = str_split a CHR '','' @ [] # str_split b CHR '',''"
    using str_split_append [of a "CHR '',''" "CHR '','' # b"] by simp
  moreover have "str_split (a @ '','' @ b) CHR '','' = str_split a CHR '','' @ str_split b CHR '',''"
    using str_split_append [of a "CHR '',''" b] by simp
  ultimately show "is_valid_game_csv self (VStr (a @ '',,'' @ b))
      = is_valid_game_csv self (VStr (a @ '','' @ b))"
    by (simp add: valid_str_iff)
next
  assume "isinstance_int v"
  then show "is_valid_game_csv self v" by (simp add: is_valid_game_csv_def)
next
  assume "toks \<noteq> [] \<and> (\<forall>t \<in> set toks. CHR '','' \<notin> set t)"
  then have "str_split (str_join CHR '','' toks) CHR '','' = toks"
    by (simp add: str_split_join)
  then show "is_valid_game_csv self (VStr (str_join CHR '','' toks)) \<longleftrightarrow>
           (\<forall>t \<in> set toks. t \<noteq> [] \<longrightarrow>
              str_strip t \<noteq> [] \<and> (\<forall>c \<in> set (str_strip t). isdigit_char c))"
    by (simp add: valid_str_iff)
next
  assume "\<exists>tok \<in> set (str_split s CHR '',''). tok \<noteq> [] \<and> list_all isspace_char tok"
  then obtain tok where "tok \<in> set (str_split s CHR '','')" "tok \<noteq> []" "str_strip tok = []"
    using str_strip_all_space by blast
  then show "\<not> is_valid_game_csv self (VStr s)"
    unfolding valid_str_iff by blast
next
  assume "\<exists>tok \<in> set (str_split s CHR '',''). \<exists>c \<in> set tok. \<not> isdigit_char c \<and> \<not> isspace_char c"
  then obtain tok c where t: "tok \<in> set (str_split s CHR '','')" "c \<in> set tok"
      "\<not> isdigit_char c" "\<not> isspace_char c"
    by blast
  then have "c \<in> set (str_strip tok)" by (simp add: str_strip_keeps)
  moreover have "tok \<noteq> []" using t(2) by auto
  ultimately show "\<not> is_valid_game_csv self (VStr s)"
    unfolding valid_str_iff using t(1,3) by blast
next
  assume "\<not> isinstance_int v \<and> \<not> isinstance_str v"
  then show "\<not> is_valid_game_csv self v" by (simp add: is_valid_game_csv_def)
qed

theorem is_valid_game_csv_cases_witness:
  "is_valid_game_csv (init (VStr ''abc123'')) (VBool True)
   \<and> is_valid_game_csv (init (VStr ''abc123'')) (VInt (- 5))
   \<and> is_valid_game_csv (init (VStr ''abc123'')) (VStr ''12345'')
   \<and> is_valid_game_csv (init (VStr ''abc123'')) (VStr ''123, 456,'')
   \<and> is_valid_game_csv (init (VStr ''abc123'')) (VStr ''123,,456'')
   \<and> \<not> is_valid_game_csv (init (VStr ''abc123'')) (VStr ''123, '')
   \<and> \<not> is_valid_game_csv (init (VStr ''abc123'')) (VStr ''123a'')
   \<and> \<not> is_valid_game_csv (init (VStr ''abc123'')) VNone"
proof -
  note t = is_valid_game_csv_cases [where self = "init (VStr ''abc123'')"]
  have c1: "is_valid_game_csv (init (VStr ''abc123'')) (VBool True)"
    using t [where v = "VBool True"] by simp
  have c2: "is_valid_game_csv (init (VStr ''abc123'')) (VInt (- 5))"
    using t [where n = "- 5"] by blast
  have c3: "is_valid_game_csv (init (VStr ''abc123'')) (VStr ''12345'')"
    using t [where s = "''12345''"] by (simp add: str_strip_def isdigit_char_def isspace_char_def)
  have j: "str_join CHR '','' [''123'', '' 456'', ''''] = ''123, 456,''" by simp
  have c4: "is_valid_game_csv (init (VStr ''abc123'')) (VStr ''123, 456,'')"
    using t [where toks = "[''123'', '' 456'', '''']"] unfolding j
    by (simp add: str_strip_def isdigit_char_def isspace_char_def)
  have "is_valid_game_csv (init (VStr ''abc123'')) (VStr ''123,456'')"
    using t [where s = "''123,456''"] by (simp add: str_strip_def isdigit_char_def isspace_char_def)
  then have c5: "is_valid_game_csv (init (VStr ''abc123'')) (VStr ''123,,456'')"
    using t [where a = "''123''" and b = "''456''"] by simp
  have "\<exists>tok \<in> set (str_split ''123, '' CHR '',''). tok \<noteq> [] \<and> list_all isspace_char tok"
    by (simp add: isspace_char_def)
  then have c6: "\<not> is_valid_game_csv (init (VStr ''abc123'')) (VStr ''123, '')"
    using t [where s = "''123, ''"] by blast
  have "\<exists>tok \<in> set (str_split ''123a'' CHR '',''). \<exists>c \<in> set tok. \<not> isdigit_char c \<and> \<not> isspace_char c"
    by (simp add: isspace_char_def isdigit_char_def)
  then have c7: "\<not> is_valid_game_csv (init (VStr ''abc123'')) (VStr ''123a'')"
    using t [where s = "''123a''"] by blast
  have c8: "\<not> is_valid_game_csv (init (VStr ''abc123'')) VNone"
    using t [where v = VNone] by simp
  show ?thesis using c1 c2 c3 c4 c5 c6 c7 c8 by blast
qed

section \<open>Properties of the dispatcher\<close>

lemma url_params_Some:
  "url_params self (Some p) w =
     (p, w\<lparr>heap := (heap w)(p := AList.update ''y'' (api_key self) (heap w p))\<rparr>)"
  by (simp add: url_params_def)

lemma url_params_None:
  "url_params self None w =
     (next_ref w, w\<lparr>heap := (heap w)(next_ref w := [(''y'', api_key self)]),
                    next_ref := Suc (next_ref w)\<rparr>)"
  by (simp add: url_params_def new_dict_def)

lemma url_params_sent: "sent (snd (url_params self params w)) = sent w"
  by (cases params) (simp_all add: url_params_Some url_params_None)

lemma url_params_warned: "warned (snd (url_params self params w)) = warned w"
  by (cases params) (simp_all add: url_params_Some url_params_None)

lemma url_params_heap:
  "heap (snd (url_params self params w)) (fst (url_params self params w)) =
     AList.update ''y'' (api_key self) (case params of None \<Rightarrow> [] | Some p \<Rightarrow> heap w p)"
  by (cases params) (simp_all add: url_params_Some url_params_None)

lemma call_api_eq:
  "call_api env self endpoint params t h w =
     (let rq = \<lparr>req_url = BASE_URL @ (case endpoint of None \<Rightarrow> [] | Some e \<Rightarrow> e),
                req_params = AList.update ''y'' (api_key self)
                               (case params of None \<Rightarrow> [] | Some p \<Rightarrow> heap w p),
                req_timeout = arg_or (VInt 30) t, req_headers = h\<rparr>;
          w1 = snd (url_params self params w)
      in (case http_get env (sent w) rq of Inl e \<Rightarrow> Inl e | Inr r \<Rightarrow> Inr (RResponse r),
          w1\<lparr>sent := sent w @ [rq]\<rparr>))"
proof -
  obtain p w1 where u: "url_params self params w = (p, w1)"
    by (cases "url_params self params w")
  have s: "sent w1 = sent w" using url_params_sent [of self params w] u by simp
  have hp: "heap w1 p = AList.update ''y'' (api_key self) (case params of None \<Rightarrow> [] | Some p \<Rightarrow> heap w p)"
    using url_params_heap [of self params w] u by simp
  show ?thesis
    by (simp add: call_api_def u s hp Let_def split: sum.splits)
qed

lemma call_json_eq:
  "call_json env self endpoint d w =
     (let rq = \<lparr>req_url = BASE_URL @ endpoint,
                req_params = AList.update ''y'' (api_key self) d,
                req_timeout = VInt 30, req_headers = None\<rparr>;
          w2 = w\<lparr>heap := (heap w)(next_ref w := AList.update ''y'' (api_key self) d),
                 next_ref := Suc (next_ref w), sent := sent w @ [rq]\<rparr>
      in (case http_get env (sent w) rq of
            Inl e \<Rightarrow> Inl e
          | Inr r \<Rightarrow> (case json_loads env (body r) of Inl e \<Rightarrow> Inl e | Inr j \<Rightarrow> Inr (RJson j)),
          w2))"
  by (simp add: call_json_def new_dict_def call_api_eq url_params_Some Let_def json_method_def
        arg_or_def split: sum.splits)


lemma update_only_binding:
  "distinct (map fst al) \<Longrightarrow> (k, v) \<in> set (AList.update k x al) \<Longrightarrow> v = x"
proof (induction al)
  case Nil
  then show ?case by simp
next
  case (Cons a al)
  then show ?case
    by (cases a) (auto split: if_splits simp: rev_image_eqI)
qed

text \<open>
  Claim C2. Whatever \<open>params\<close> the dispatcher receives (none, an empty dictionary, a
  dictionary that already binds \<open>y\<close>), the request it sends carries the key \<open>y\<close> bound to
  the client's API key, and no other binding of \<open>y\<close> survives in a dictionary with
  distinct keys.
\<close>

theorem auth_param_always_sent:
  "let d = (case params of None \<Rightarrow> [] | Some p \<Rightarrow> heap w p);
       rq = \<lparr>req_url = BASE_URL @ (case endpoint of None \<Rightarrow> [] | Some e \<Rightarrow> e),
             req_params = AList.update ''y'' (api_key self) d,
             req_timeout = arg_or (VInt 30) t, req_headers = h\<rparr>
   in sent (snd (call_api env self endpoint params t h w)) = sent w @ [rq]
      \<and> map_of (req_params rq) ''y'' = Some (api_key self)
      \<and> (distinct (map fst d) \<longrightarrow>
           (\<forall>v. (''y'', v) \<in> set (req_params rq) \<longrightarrow> v = api_key self))"
  by (auto simp: call_api_eq Let_def update_conv' dest: update_only_binding)

theorem auth_param_always_sent_witness:
  "sent (snd (call_api example_env (init (VStr ''abc123'')) (Some ''API_GetGame.php?'')
                (Some 0) None None
                (empty_world\<lparr>heap := (heap empty_world)(0 := [(''y'', VStr ''mine''), (''i'', VInt 10)]),
                             next_ref := 1\<rparr>)))
     = [\<lparr>req_url = ''https://retroachievements.org/API/API_GetGame.php?'',
         req_params = [(''y'', VStr ''abc123''), (''i'', VInt 10)],
         req_timeout = VInt 30, req_headers = None\<rparr>]
   \<and> map_of [(''y'', VStr ''abc123''), (''i'', VInt 10)] ''y'' = Some (VStr ''abc123'')
   \<and> distinct (map fst [(''y'', VStr ''mine''), (''i'', VInt 10)])
   \<and> (''y'', VStr ''mine'') \<notin> set [(''y'', VStr ''abc123''), (''i'', VInt 10)]"
  using auth_param_always_sent [where env = example_env and self = "init (VStr ''abc123'')"
      and endpoint = "Some ''API_GetGame.php?''" and params = "Some 0" and t = None and h = None
      and w = "empty_world\<lparr>heap := (heap empty_world)(0 := [(''y'', VStr ''mine''), (''i'', VInt 10)]),
                           next_ref := 1\<rparr>"]
  by (simp add: init_def empty_world_def Let_def BASE_URL_def arg_or_def)

text \<open>
  Claim C9. \<open>url_params\<close> updates the caller's dictionary in place: the reference returned
  is the one passed in, the dictionary behind it now binds \<open>y\<close> to the API key, its other
  entries and every other dictionary are unchanged, and no new dictionary is allocated.
\<close>

theorem url_params_in_place:
  "fst (url_params self (Some p) w) = p
   \<and> heap (snd (url_params self (Some p) w)) p = AList.update ''y'' (api_key self) (heap w p)
   \<and> map_of (heap (snd (url_params self (Some p) w)) p) ''y'' = Some (api_key self)
   \<and> (\<forall>k. k \<noteq> ''y'' \<longrightarrow>
          map_of (heap (snd (url_params self (Some p) w)) p) k = map_of (heap w p) k)
   \<and> (\<forall>q. q \<noteq> p \<longrightarrow> heap (snd (url_params self (Some p) w)) q = heap w q)
   \<and> next_ref (snd (url_params self (Some p) w)) = next_ref w"
  by (simp add: url_params_Some update_conv')


theorem url_params_in_place_witness:
  "fst (url_params (init (VStr ''abc123'')) (Some 0)
         (empty_world\<lparr>heap := (heap empty_world)(0 := [(''y'', VStr ''mine''), (''i'', VInt 10)]),
                      next_ref := 1\<rparr>)) = 0
   \<and> heap (snd (url_params (init (VStr ''abc123'')) (Some 0)
         (empty_world\<lparr>heap := (heap empty_world)(0 := [(''y'', VStr ''mine''), (''i'', VInt 10)]),
                      next_ref := 1\<rparr>))) 0 = [(''y'', VStr ''abc123''), (''i'', VInt 10)]
   \<and> ''i'' \<noteq> ''y''
   \<and> map_of (heap (snd (url_params (init (VStr ''abc123'')) (Some 0)
         (empty_world\<lparr>heap := (heap empty_world)(0 := [(''y'', VStr ''mine''), (''i'', VInt 10)]),
                      next_ref := 1\<rparr>))) 0) ''i'' = Some (VInt 10)
   \<and> (1::nat) \<noteq> 0
   \<and> heap (snd (url_params (init (VStr ''abc123'')) (Some 0)
         (empty_world\<lparr>heap := (heap empty_world)(0 := [(''y'', VStr ''mine''), (''i'', VInt 10)]),
                      next_ref := 1\<rparr>))) 1 = []"
  using url_params_in_place [of "init (VStr ''abc123'')" 0
      "empty_world\<lparr>heap := (heap empty_world)(0 := [(''y'', VStr ''mine''), (''i'', VInt 10)]),
                   next_ref := 1\<rparr>"]
  by (simp add: init_def empty_world_def)

text \<open>
  Claim C4 says that the dispatcher returns the response body parsed as JSON rather than a
  response object. It does not: in the sample environment \<open>_call_api\<close> returns the response
  object, and only \<open>dispatch_spec\<close>, which parses it, returns the JSON value.
\<close>

theorem dispatcher_returns_json_counterexample:
  "fst (call_api example_env (init (VStr ''abc123'')) (Some ''API_GetTopTenUsers.php?'')
          None None None empty_world)
     = Inr (RResponse \<lparr>status_code = 200, body = ''[]''\<rparr>)
   \<and> fst (dispatch_spec example_env (init (VStr ''abc123'')) (Some ''API_GetTopTenUsers.php?'')
          None None None empty_world)
     = Inr (RJson (JArray []))
   \<and> call_api example_env (init (VStr ''abc123'')) (Some ''API_GetTopTenUsers.php?'')
          None None None empty_world
     \<noteq> dispatch_spec example_env (init (VStr ''abc123'')) (Some ''API_GetTopTenUsers.php?'')
          None None None empty_world"
  by (simp add: dispatch_spec_def call_api_eq Let_def example_env_def json_method_def)

text \<open>What every call of a wrapper does with the dispatcher's answer.\<close>

lemmas wrapper_defs =
  get_user_profile_def get_user_recent_achievements_def
  get_user_achievements_earned_between_def get_user_achievements_earned_on_day_def
  get_game_info_and_user_progress_def get_user_completion_progress_def
  get_user_awards_def get_user_claims_def get_user_game_rank_and_score_def
  get_user_points_def get_user_progress_def get_user_recently_played_games_def
  get_user_summary_def get_user_completed_games_def get_user_want_to_play_list_def
  get_users_i_follow_def get_users_following_me_def get_user_set_requests_def
  get_game_def get_game_extended_def get_game_hashes_def get_achievement_count_def
  get_achievement_distribution_def get_game_rank_and_score_def
  get_game_leaderboards_def get_leaderboard_entries_def get_user_game_leaderboards_def
  get_console_ids_def get_game_list_def get_achievement_unlocks_def get_comments_def
  get_recent_game_awards_def get_active_claims_def get_inactive_claims_def
  get_top_ten_users_def get_achievement_of_the_week_def get_ticket_data_def
  get_most_ticketed_games_def get_most_recent_tickets_def get_game_ticket_stats_def
  get_developer_ticket_stats_def get_achievement_ticket_stats_def

lemma invoke_parses:
  "(\<forall>r. fst (invoke env self call w) \<noteq> Inr (RResponse r))
   \<and> ((sent (snd (invoke env self call w)) = sent w \<and> isl (fst (invoke env self call w)))
      \<or> (sent (snd (invoke env self call w)) = sent w @ [last (sent (snd (invoke env self call w)))]
         \<and> prefix ''https://retroachievements.org/API/''
              (req_url (last (sent (snd (invoke env self call w)))))
         \<and> map_of (req_params (last (sent (snd (invoke env self call w))))) ''y''
             = Some (api_key self)
         \<and> req_timeout (last (sent (snd (invoke env self call w)))) = VInt 30
         \<and> fst (invoke env self call w)
             = (case http_get env (sent w) (last (sent (snd (invoke env self call w)))) of
                  Inl e \<Rightarrow> Inl e
                | Inr r \<Rightarrow> (case json_loads env (body r) of
                             Inl e \<Rightarrow> Inl e
                           | Inr j \<Rightarrow> Inr (RJson j)))))"
  by (cases call)
     (simp_all add: wrapper_defs call_json_eq Let_def warn_def BASE_URL_def update_conv'
        split: option.splits sum.splits action.splits)

text \<open>
  Claim C4, amended. For every endpoint string and \<open>params\<close>, the dispatcher called without
  a timeout sends one GET request to the base URL followed by the endpoint, with the
  authentication key merged into \<open>params\<close> and a timeout of 30, and returns the response
  object unparsed (never a JSON value). The body is parsed as JSON by the endpoint
  wrappers: no call of any wrapper returns a response object; a call either ends with an
  error before anything is sent, or sends exactly one request through the dispatcher (base
  URL, authentication key, timeout 30) and returns the decoded body of its answer, or the
  error of the transport or of the decoder.
\<close>

theorem call_api_contract:
  "(let rq = \<lparr>req_url = ''https://retroachievements.org/API/'' @ endpoint,
              req_params = AList.update ''y'' (api_key self)
                             (case params of None \<Rightarrow> [] | Some p \<Rightarrow> heap w p),
              req_timeout = VInt 30, req_headers = headers\<rparr>;
        res = call_api env self (Some endpoint) params None headers w
    in sent (snd res) = sent w @ [rq]
       \<and> fst res = (case http_get env (sent w) rq of Inl e \<Rightarrow> Inl e | Inr r \<Rightarrow> Inr (RResponse r))
       \<and> (\<forall>j. fst res \<noteq> Inr (RJson j))
       \<and> fst (call_json env self endpoint d w)
           = (case http_get env (sent w) (rq\<lparr>req_params := AList.update ''y'' (api_key self) d,
                                                 req_headers := None\<rparr>) of
                Inl e \<Rightarrow> Inl e
              | Inr r \<Rightarrow> (case json_loads env (body r) of Inl e \<Rightarrow> Inl e | Inr j \<Rightarrow> Inr (RJson j))))
   \<and> (let out = invoke env self call w;
            rq = last (sent (snd out))
        in (\<forall>r. fst out \<noteq> Inr (RResponse r))
           \<and> ((sent (snd out) = sent w \<and> isl (fst out))
              \<or> (sent (snd out) = sent w @ [rq]
                 \<and> prefix ''https://retroachievements.org/API/'' (req_url rq)
                 \<and> map_of (req_params rq) ''y'' = Some (api_key self)
                 \<and> req_timeout rq = VInt 30
                 \<and> fst out
                     = (case http_get env (sent w) rq of
                          Inl e \<Rightarrow> Inl e
                        | Inr r \<Rightarrow> (case json_loads env (body r) of
                                     Inl e \<Rightarrow> Inl e
                                   | Inr j \<Rightarrow> Inr (RJson j))))))"
proof (rule conjI)
  show "let rq = \<lparr>req_url = ''https://retroachievements.org/API/'' @ endpoint,
              req_params = AList.update ''y'' (api_key self)
                             (case params of None \<Rightarrow> [] | Some p \<Rightarrow> heap w p),
              req_timeout = VInt 30, req_headers = headers\<rparr>;
        res = call_api env self (Some endpoint) params None headers w
    in sent (snd res) = sent w @ [rq]
       \<and> fst res = (case http_get env (sent w) rq of Inl e \<Rightarrow> Inl e | Inr r \<Rightarrow> Inr (RResponse r))
       \<and> (\<forall>j. fst res \<noteq> Inr (RJson j))
       \<and> fst (call_json env self endpoint d w)
           = (case http_get env (sent w) (rq\<lparr>req_params := AList.update ''y'' (api_key self) d,
                                                 req_headers := None\<rparr>) of
                Inl e \<Rightarrow> Inl e
              | Inr r \<Rightarrow> (case json_loads env (body r) of Inl e \<Rightarrow> Inl e | Inr j \<Rightarrow> Inr (RJson j)))"
    by (auto simp: call_api_eq call_json_eq Let_def BASE_URL_def arg_or_def split: sum.splits)
  show "let out = invoke env self call w;
            rq = last (sent (snd out))
        in (\<forall>r. fst out \<noteq> Inr (RResponse r))
           \<and> ((sent (snd out) = sent w \<and> isl (fst out))
              \<or> (sent (snd out) = sent w @ [rq]
                 \<and> prefix ''https://retroachievements.org/API/'' (req_url rq)
                 \<and> map_of (req_params rq) ''y'' = Some (api_key self)
                 \<and> req_timeout rq = VInt 30
                 \<and> fst out
                     = (case http_get env (sent w) rq of
                          Inl e \<Rightarrow> Inl e
                        | Inr r \<Rightarrow> (case json_loads env (body r) of
                                     Inl e \<Rightarrow> Inl e
                                   | Inr j \<Rightarrow> Inr (RJson j)))))"
    unfolding Let_def by (rule invoke_parses)
qed

theorem call_api_contract_witness:
  "sent (snd (call_api example_env (init (VStr ''abc123'')) (Some ''API_GetTopTenUsers.php?'')
                None None None empty_world))
     = [\<lparr>req_url = ''https://retroachievements.org/API/API_GetTopTenUsers.php?'',
         req_params = [(''y'', VStr ''abc123'')], req_timeout = VInt 30, req_headers = None\<rparr>]
   \<and> fst (call_api example_env (init (VStr ''abc123'')) (Some ''API_GetTopTenUsers.php?'')
                None None None empty_world)
     = Inr (RResponse \<lparr>status_code = 200, body = ''[]''\<rparr>)
   \<and> fst (call_json example_env (init (VStr ''abc123'')) ''API_GetTopTenUsers.php?'' [] empty_world)
     = Inr (RJson (JArray []))
   \<and> fst (invoke example_env (init (VStr ''abc123'')) Get_top_ten_users empty_world)
     = Inr (RJson (JArray []))
   \<and> sent (snd (invoke example_env (init (VStr ''abc123'')) Get_top_ten_users empty_world))
     = [\<lparr>req_url = ''https://retroachievements.org/API/API_GetTopTenUsers.php?'',
         req_params = [(''y'', VStr ''abc123'')], req_timeout = VInt 30, req_headers = None\<rparr>]
   \<and> fst (invoke example_env (init (VStr ''abc123'')) (Get_game_extended (VInt 7) (Some (VInt 4)))
            empty_world)
     = Inl (ValueError ''Invalid set type selected. Must be 3 or 5.'')
   \<and> sent (snd (invoke example_env (init (VStr ''abc123''))
                  (Get_game_extended (VInt 7) (Some (VInt 4))) empty_world)) = []"
  using call_api_contract [where env = example_env and self = "init (VStr ''abc123'')"
      and endpoint = "''API_GetTopTenUsers.php?''" and params = None and headers = None
      and w = empty_world and d = "[]" and call = Get_top_ten_users]
  by (simp add: example_env_def init_def empty_world_def Let_def get_top_ten_users_def
        get_game_extended_def call_json_eq BASE_URL_def arg_or_def py_in_def)

text \<open>
  Claim C5. With the API key \<open>abc123\<close>, \<open>get_game(10)\<close> sends exactly one GET request; the
  path of its URL ends in \<open>API_GetGame.php\<close> and its query parameters are
  \<open>{i: 10, y: "abc123"}\<close>.
\<close>

theorem get_game_scenario:
  "sent (snd (get_game env (init (VStr ''abc123'')) (VInt 10) w))
     = sent w @ [\<lparr>req_url = ''https://retroachievements.org/API/API_GetGame.php?'',
                   req_params = [(''i'', VInt 10), (''y'', VStr ''abc123'')],
                   req_timeout = VInt 30, req_headers = None\<rparr>]
   \<and> suffix ''API_GetGame.php''
        (url_path (req_url (last (sent (snd (get_game env (init (VStr ''abc123'')) (VInt 10) w))))))"
  by (simp add: get_game_def call_json_eq Let_def init_def BASE_URL_def url_path_def suffix_def)

theorem get_game_scenario_witness:
  "sent (snd (get_game example_env (init (VStr ''abc123'')) (VInt 10) empty_world))
     = [\<lparr>req_url = ''https://retroachievements.org/API/API_GetGame.php?'',
         req_params = [(''i'', VInt 10), (''y'', VStr ''abc123'')],
         req_timeout = VInt 30, req_headers = None\<rparr>]"
  using get_game_scenario [where env = example_env and w = empty_world]
  by (simp add: empty_world_def)

text \<open>
  Claim C6. \<open>get_comments\<close> with target 4 raises \<open>ValueError\<close> and sends nothing (the world
  is unchanged); with target 2, sort \<open>submitted\<close> and the other arguments left out, it sends
  one request whose parameters, the authentication key apart, are
  \<open>{i: game, t: 2, c: 100, o: 0, sort: "submitted"}\<close>.
\<close>

theorem get_comments_scenario:
  "get_comments env self game (VInt 4) count_arg offset_arg sort_arg w
     = (Inl (ValueError
          ''Invalid target type. Must be 1 (game), 2 (achievement), or 3 (user/ulid).''), w)
   \<and> sent (snd (get_comments env self game (VInt 2) None None (Some (VStr ''submitted'')) w))
     = sent w @ [\<lparr>req_url = ''https://retroachievements.org/API/API_GetComments.php?'',
                   req_params = [(''i'', game), (''t'', VInt 2), (''c'', VInt 100), (''o'', VInt 0),
                                 (''sort'', VStr ''submitted''), (''y'', api_key self)],
                   req_timeout = VInt 30, req_headers = None\<rparr>]
   \<and> filter (\<lambda>kv. fst kv \<noteq> ''y'')
        (req_params (last (sent (snd (get_comments env self game (VInt 2) None None
                                        (Some (VStr ''submitted'')) w)))))
     = [(''i'', game), (''t'', VInt 2), (''c'', VInt 100), (''o'', VInt 0),
        (''sort'', VStr ''submitted'')]"
  by (simp add: get_comments_def call_json_eq Let_def BASE_URL_def arg_or_def py_in_def)

theorem get_comments_scenario_witness:
  "get_comments example_env (init (VStr ''abc123'')) (VInt 7) (VInt 4) None None None empty_world
     = (Inl (ValueError
          ''Invalid target type. Must be 1 (game), 2 (achievement), or 3 (user/ulid).''),
        empty_world)
   \<and> sent (snd (get_comments example_env (init (VStr ''abc123'')) (VInt 7) (VInt 2) None None
                  (Some (VStr ''submitted'')) empty_world))
     = [\<lparr>req_url = ''https://retroachievements.org/API/API_GetComments.php?'',
         req_params = [(''i'', VInt 7), (''t'', VInt 2), (''c'', VInt 100), (''o'', VInt 0),
                       (''sort'', VStr ''submitted''), (''y'', VStr ''abc123'')],
         req_timeout = VInt 30, req_headers = None\<rparr>]"
  using get_comments_scenario [where env = example_env and self = "init (VStr ''abc123'')"
      and game = "VInt 7" and count_arg = None and offset_arg = None and sort_arg = None
      and w = empty_world]
  by (simp add: empty_world_def init_def)

section \<open>Properties of the endpoint wrappers\<close>

lemma call_json_warned: "warned (snd (call_json env self endpoint d w)) = warned w"
  by (simp add: call_json_eq Let_def)

text \<open>
  Claim C3. Every check of an argument against a list of legal values raises \<open>ValueError\<close>
  with a message that names the legal values when the argument is outside the list, and the
  world is unchanged: nothing has been sent. Where a wrapper checks two arguments, the
  message is that of the first check that fails.
\<close>

theorem enum_violation_raises:
  "(\<not> py_in awards [VInt 0, VInt 1] \<longrightarrow>
      get_game_info_and_user_progress env self user game (Some awards) w
        = (Inl (ValueError ''Invalid awards value. Must be 0 or 1.''), w))
   \<and> (\<not> py_in list_type [VInt 0, VInt 1] \<longrightarrow>
      get_user_set_requests env self user (Some list_type) w
        = (Inl (ValueError ''Invalid list type. Must be 0 or 1.''), w))
   \<and> (\<not> py_in set_level [VInt 3, VInt 5] \<longrightarrow>
      get_game_extended env self game (Some set_level) w
        = (Inl (ValueError ''Invalid set type selected. Must be 3 or 5.''), w))
   \<and> (\<not> py_in achievement_type [VInt 0, VInt 1] \<longrightarrow>
      get_achievement_distribution env self game (Some achievement_type) set_level_arg w
        = (Inl (ValueError ''Invalid achievement type. Must be 0 or 1.''), w))
   \<and> (\<not> py_in set_level [VInt 3, VInt 5] \<longrightarrow>
      get_achievement_distribution env self game achievement_type_arg (Some set_level) w
        = (Inl (ValueError
             (if \<not> py_in (arg_or (VInt 0) achievement_type_arg) [VInt 0, VInt 1]
              then ''Invalid achievement type. Must be 0 or 1.''
              else ''Invalid set type selected. Must be 3 or 5.'')), w))
   \<and> (\<not> py_in list_type [VInt 0, VInt 1] \<longrightarrow>
      get_game_rank_and_score env self game (Some list_type) w
        = (Inl (ValueError ''Invalid list type. Must be 0 or 1.''), w))
   \<and> (\<not> py_in has_cheevos [VInt 0, VInt 1] \<longrightarrow>
      get_game_list env self system (Some has_cheevos) hashes_arg w
        = (Inl (ValueError ''Invalid has_cheevos value. Must be 0 or 1.''), w))
   \<and> (\<not> py_in hashes [VInt 0, VInt 1] \<longrightarrow>
      get_game_list env self system has_cheevos_arg (Some hashes) w
        = (Inl (ValueError
             (if \<not> py_in (arg_or (VInt 0) has_cheevos_arg) [VInt 0, VInt 1]
              then ''Invalid has_cheevos value. Must be 0 or 1.''
              else ''Invalid hashes value. Must be 0 or 1.'')), w))
   \<and> (\<not> py_in target [VInt 1, VInt 2, VInt 3] \<longrightarrow>
      get_comments env self game target count_arg offset_arg sort_arg w
        = (Inl (ValueError
             ''Invalid target type. Must be 1 (game), 2 (achievement), or 3 (user/ulid).''), w))
   \<and> (\<not> py_in sort_order [VStr ''submitted'', VStr ''-submitted''] \<longrightarrow>
      get_comments env self game target count_arg offset_arg (Some sort_order) w
        = (Inl (ValueError
             (if \<not> py_in target [VInt 1, VInt 2, VInt 3]
              then ''Invalid target type. Must be 1 (game), 2 (achievement), or 3 (user/ulid).''
              else ''Invalid sort order. Must be 'submitted' or '-submitted'.'')), w))
   \<and> (award_kind \<noteq> VNone
        \<and> \<not> py_in award_kind [VStr ''beaten-softcore'', VStr ''beaten-hardcore'',
                                VStr ''completed'', VStr ''mastered''] \<longrightarrow>
      get_recent_game_awards env self date_arg offset_arg count_arg (Some award_kind) w
        = (Inl (ValueError
             (''Invalid kind value. Must be one of 'beaten-softcore', 'beaten-''
              @ ''hardcore', 'completed', or 'mastered'.'')), w))
   \<and> (\<not> py_in claim_kind [VInt 1, VInt 2, VInt 3] \<longrightarrow>
      get_inactive_claims env self (Some claim_kind) w
        = (Inl (ValueError
             ''Invalid kind value. Must be 1 (completed), 2 (dropped) or 3 (expired).''), w))
   \<and> (\<not> py_in focus [VInt 3, VInt 5] \<longrightarrow>
      get_game_ticket_stats env self game (Some focus) depth_arg w
        = (Inl (ValueError ''Invalid focus value. Must be 3 (official) or 5 (unofficial).''), w))"
  by (intro conjI impI;
      simp add: get_game_info_and_user_progress_def get_user_set_requests_def
        get_game_extended_def get_achievement_distribution_def get_game_rank_and_score_def
        get_game_list_def get_comments_def get_recent_game_awards_def get_inactive_claims_def
        get_game_ticket_stats_def arg_or_def Let_def)


theorem enum_violation_raises_witness:
  "get_game_info_and_user_progress example_env (init (VStr ''abc123'')) (VStr ''someone'')
       (VInt 7) (Some (VInt 2)) empty_world
     = (Inl (ValueError ''Invalid awards value. Must be 0 or 1.''), empty_world)
   \<and> get_user_set_requests example_env (init (VStr ''abc123'')) (VStr ''someone'')
       (Some (VInt 2)) empty_world
     = (Inl (ValueError ''Invalid list type. Must be 0 or 1.''), empty_world)
   \<and> get_game_extended example_env (init (VStr ''abc123'')) (VInt 7) (Some (VInt 4)) empty_world
     = (Inl (ValueError ''Invalid set type selected. Must be 3 or 5.''), empty_world)
   \<and> get_achievement_distribution example_env (init (VStr ''abc123'')) (VInt 7)
       (Some (VInt 2)) None empty_world
     = (Inl (ValueError ''Invalid achievement type. Must be 0 or 1.''), empty_world)
   \<and> get_achievement_distribution example_env (init (VStr ''abc123'')) (VInt 7)
       None (Some (VInt 4)) empty_world
     = (Inl (ValueError ''Invalid set type selected. Must be 3 or 5.''), empty_world)
   \<and> get_game_rank_and_score example_env (init (VStr ''abc123'')) (VInt 7)
       (Some (VInt 2)) empty_world
     = (Inl (ValueError ''Invalid list type. Must be 0 or 1.''), empty_world)
   \<and> get_game_list example_env (init (VStr ''abc123'')) (VInt 1) (Some (VInt 2)) None empty_world
     = (Inl (ValueError ''Invalid has_cheevos value. Must be 0 or 1.''), empty_world)
   \<and> get_game_list example_env (init (VStr ''abc123'')) (VInt 1) None (Some (VInt 2)) empty_world
     = (Inl (ValueError ''Invalid hashes value. Must be 0 or 1.''), empty_world)
   \<and> get_comments example_env (init (VStr ''abc123'')) (VInt 7) (VInt 4) None None None
       empty_world
     = (Inl (ValueError
          ''Invalid target type. Must be 1 (game), 2 (achievement), or 3 (user/ulid).''),
        empty_world)
   \<and> get_comments example_env (init (VStr ''abc123'')) (VInt 7) (VInt 2) None None
       (Some (VStr ''newest'')) empty_world
     = (Inl (ValueError ''Invalid sort order. Must be 'submitted' or '-submitted'.''),
        empty_world)
   \<and> get_recent_game_awards example_env (init (VStr ''abc123'')) None None None
       (Some (VStr ''beaten'')) empty_world
     = (Inl (ValueError
          (''Invalid kind value. Must be one of 'beaten-softcore', 'beaten-''
           @ ''hardcore', 'completed', or 'mastered'.'')), empty_world)
   \<and> get_inactive_claims example_env (init (VStr ''abc123'')) (Some (VInt 4)) empty_world
     = (Inl (ValueError
          ''Invalid kind value. Must be 1 (completed), 2 (dropped) or 3 (expired).''),
        empty_world)
   \<and> get_game_ticket_stats example_env (init (VStr ''abc123'')) (VInt 7) (Some (VInt 4)) None
       empty_world
     = (Inl (ValueError ''Invalid focus value. Must be 3 (official) or 5 (unofficial).''),
        empty_world)"
  using
    enum_violation_raises [where env = example_env and self = "init (VStr ''abc123'')"
      and w = empty_world and user = "VStr ''someone''" and game = "VInt 7"
      and system = "VInt 1" and awards = "VInt 2" and list_type = "VInt 2"
      and set_level = "VInt 4" and achievement_type = "VInt 2" and set_level_arg = None
      and achievement_type_arg = None and has_cheevos = "VInt 2" and hashes_arg = None
      and hashes = "VInt 2" and has_cheevos_arg = None and target = "VInt 4"
      and count_arg = None and offset_arg = None and sort_arg = None
      and sort_order = "VStr ''newest''" and award_kind = "VStr ''beaten''" and date_arg = None
      and claim_kind = "VInt 4" and focus = "VInt 4" and depth_arg = None]
    enum_violation_raises [where env = example_env and self = "init (VStr ''abc123'')"
      and w = empty_world and user = "VStr ''someone''" and game = "VInt 7"
      and system = "VInt 1" and awards = "VInt 2" and list_type = "VInt 2"
      and set_level = "VInt 4" and achievement_type = "VInt 2" and set_level_arg = None
      and achievement_type_arg = None and has_cheevos = "VInt 2" and hashes_arg = None
      and hashes = "VInt 2" and has_cheevos_arg = None and target = "VInt 2"
      and count_arg = None and offset_arg = None and sort_arg = None
      and sort_order = "VStr ''newest''" and award_kind = "VStr ''beaten''" and date_arg = None
      and claim_kind = "VInt 4" and focus = "VInt 4" and depth_arg = None]
  by (simp add: py_in_def arg_or_def)


text \<open>
  Two documented restrictions are not checked by the code: \<open>get_most_ticketed_games\<close> says
  of \<open>f\<close> that it "must be set to 1", and \<open>get_game_ticket_stats\<close> gives \<open>d\<close> the values 0 and
  1. Any other value is sent as it is.
\<close>

lemma documented_values_unchecked:
  "sent (snd (get_most_ticketed_games env self (Some (VInt 2)) w))
     = sent w @ [\<lparr>req_url = ''https://retroachievements.org/API/API_GetTicketData.php?'',
                   req_params = [(''f'', VInt 2), (''y'', api_key self)],
                   req_timeout = VInt 30, req_headers = None\<rparr>]
   \<and> sent (snd (get_game_ticket_stats env self game None (Some (VInt 7)) w))
     = sent w @ [\<lparr>req_url = ''https://retroachievements.org/API/API_GetTicketData.php?'',
                   req_params = [(''g'', game), (''f'', VInt 3), (''d'', VInt 7),
                                 (''y'', api_key self)],
                   req_timeout = VInt 30, req_headers = None\<rparr>]"
  by (simp add: get_most_ticketed_games_def get_game_ticket_stats_def call_json_eq Let_def
        arg_or_def BASE_URL_def py_in_def)

subsection \<open>Dates\<close>

lemma str_nat_small: "n < 10 \<Longrightarrow> str_nat n = [digit_char n]"
  by (subst str_nat.simps) simp

lemma str_nat_large: "10 \<le> n \<Longrightarrow> str_nat n = str_nat (n div 10) @ [digit_char (n mod 10)]"
  by (subst str_nat.simps) simp

lemma digit_char_mod: "digit_char (n mod 10) = digit_char n"
  by (simp add: digit_char_def)

lemma digit_char_0: "digit_char 0 = CHR ''0''"
  by (simp add: digit_char_def)

lemma str_nat_2: "10 \<le> n \<Longrightarrow> n < 100 \<Longrightarrow> str_nat n = [digit_char (n div 10), digit_char n]"
  by (simp add: str_nat_large str_nat_small digit_char_mod)

lemma div_10_10: "(n::nat) div 10 div 10 = n div 100"
proof -
  have "n div (10 * 10) = n div 10 div 10" by (rule div_mult2_eq)
  then show ?thesis by simp
qed

lemma div_10_100: "(n::nat) div 10 div 100 = n div 1000"
proof -
  have "n div (10 * 100) = n div 10 div 100" by (rule div_mult2_eq)
  then show ?thesis by simp
qed


lemma str_nat_3:
  assumes "100 \<le> n" "n < 1000"
  shows "str_nat n = [digit_char (n div 100), digit_char (n div 10), digit_char n]"
proof -
  have a: "10 \<le> n div 10" "n div 10 < 100" using assms by auto
  have "str_nat n = str_nat (n div 10) @ [digit_char (n mod 10)]"
    using assms by (intro str_nat_large) simp
  also have "str_nat (n div 10) = [digit_char (n div 10 div 10), digit_char (n div 10)]"
    using a by (rule str_nat_2)
  finally show ?thesis by (simp only: div_10_10 digit_char_mod append.simps)
qed

lemma str_nat_4:
  assumes "1000 \<le> n" "n < 10000"
  shows "str_nat n = [digit_char (n div 1000), digit_char (n div 100), digit_char (n div 10),
                      digit_char n]"
proof -
  have a: "100 \<le> n div 10" "n div 10 < 1000" using assms by auto
  have "str_nat n = str_nat (n div 10) @ [digit_char (n mod 10)]"
    using assms by (intro str_nat_large) simp
  also have "str_nat (n div 10)
      = [digit_char (n div 10 div 100), digit_char (n div 10 div 10), digit_char (n div 10)]"
    using a by (rule str_nat_3)
  finally show ?thesis by (simp only: div_10_10 div_10_100 digit_char_mod append.simps)
qed

lemma zfill_2:
  assumes "n < 100"
  shows "zfill 2 (str_nat n) = [digit_char (n div 10), digit_char n]"
proof (cases "n < 10")
  case True
  then show ?thesis by (simp add: zfill_def str_nat_small digit_char_0)
next
  case False
  with assms show ?thesis by (simp add: zfill_def str_nat_2)
qed

lemma replicate_2: "replicate 2 x = [x, x]"
  by (simp add: numeral_2_eq_2)

lemma replicate_3: "replicate 3 x = [x, x, x]"
  by (simp add: numeral_3_eq_3)

lemma zfill_4:
  assumes "n < 10000"
  shows "zfill 4 (str_nat n)
           = [digit_char (n div 1000), digit_char (n div 100), digit_char (n div 10), digit_char n]"
proof -
  consider "n < 10" | "10 \<le> n" "n < 100" | "100 \<le> n" "n < 1000" | "1000 \<le> n"
    by linarith
  then show ?thesis
  proof cases
    case 1
    then show ?thesis by (simp add: zfill_def str_nat_small digit_char_0 replicate_2 replicate_3)
  next
    case 2
    then show ?thesis by (simp add: zfill_def str_nat_2 digit_char_0 replicate_2 replicate_3)
  next
    case 3
    then show ?thesis by (simp add: zfill_def str_nat_3 digit_char_0)
  next
    case 4
    with assms show ?thesis by (simp add: zfill_def str_nat_4)
  qed
qed

lemma strftime_Ymd_format:
  assumes "year d < 10000" "month d < 100" "day d < 100"
  shows "strftime_Ymd d
           = [digit_char (year d div 1000), digit_char (year d div 100),
              digit_char (year d div 10), digit_char (year d), CHR ''-'',
              digit_char (month d div 10), digit_char (month d), CHR ''-'',
              digit_char (day d div 10), digit_char (day d)]"
  using assms by (simp add: strftime_Ymd_def zfill_2 zfill_4)

lemma strftime_Ymd_example: "strftime_Ymd \<lparr>year = 2026, month = 3, day = 7\<rparr> = ''2026-03-07''"
  by (simp add: strftime_Ymd_format digit_char_def)


text \<open>
  Claim C7. \<open>get_recent_game_awards\<close> called without a date sends today's date as \<open>d\<close>.
  \<open>get_user_achievements_earned_on_day\<close> does so only when \<open>None\<close> is passed for the date:
  called without a date it fails with \<open>TypeError\<close> and sends nothing, although its
  documentation gives the date the default "now".
\<close>

theorem date_default_divergence:
  "get_user_achievements_earned_on_day env self user None w
     = (Inl (TypeError ''missing 1 required positional argument: date''), w)
   \<and> sent (snd (get_user_achievements_earned_on_day env self user (Some VNone) w))
     = sent w @ [\<lparr>req_url = ''https://retroachievements.org/API/API_GetAchievementsEarnedOnDay.php?'',
                   req_params = [(''u'', user), (''d'', VStr (strftime_Ymd (today env))),
                                 (''y'', api_key self)],
                   req_timeout = VInt 30, req_headers = None\<rparr>]
   \<and> sent (snd (get_recent_game_awards env self None None None None w))
     = sent w @ [\<lparr>req_url = ''https://retroachievements.org/API/API_GetRecentGameAwards.php?'',
                   req_params = [(''d'', VStr (strftime_Ymd (today env))), (''o'', VInt 0),
                                 (''c'', VInt 25), (''k'', VNone), (''y'', api_key self)],
                   req_timeout = VInt 30, req_headers = None\<rparr>]"
  by (simp add: get_user_achievements_earned_on_day_def get_recent_game_awards_def call_json_eq
        Let_def arg_or_def BASE_URL_def)

theorem date_default_divergence_witness:
  "get_user_achievements_earned_on_day example_env (init (VStr ''abc123'')) (VStr ''someone'')
       None empty_world
     = (Inl (TypeError ''missing 1 required positional argument: date''), empty_world)
   \<and> sent (snd (get_recent_game_awards example_env (init (VStr ''abc123'')) None None None None
                  empty_world))
     = [\<lparr>req_url = ''https://retroachievements.org/API/API_GetRecentGameAwards.php?'',
         req_params = [(''d'', VStr ''2026-03-07''), (''o'', VInt 0), (''c'', VInt 25),
                       (''k'', VNone), (''y'', VStr ''abc123'')],
         req_timeout = VInt 30, req_headers = None\<rparr>]"
  using date_default_divergence [where env = example_env and self = "init (VStr ''abc123'')"
      and user = "VStr ''someone''" and w = empty_world]
  by (simp add: example_env_def empty_world_def init_def strftime_Ymd_example)

subsection \<open>Advisories\<close>

text \<open>
  Claim C8 says that the advisory never alters control flow: after it, each of the three
  wrappers still issues its request and returns as a wrapper without advisory would. Under
  a warnings filter with the action \<open>error\<close>, \<open>warnings.warn\<close> raises the advisory as an
  exception: \<open>get_user_completed_games\<close> ends with that exception and sends nothing, while
  the same request without the advisory is sent and answered.
\<close>

theorem advisory_raised_counterexample:
  "get_user_completed_games strict_env (init (VStr ''abc123'')) (VStr ''someone'') empty_world
     = (Inl (WarningError DeprecationWarning user_completed_games_advisory), empty_world)
   \<and> sent (snd (get_user_completed_games strict_env (init (VStr ''abc123'')) (VStr ''someone'')
                  empty_world)) = []
   \<and> fst (call_json strict_env (init (VStr ''abc123'')) ''API_GetUserCompletedGames.php?''
            [(''u'', VStr ''someone'')] empty_world) = Inr (RJson (JArray []))
   \<and> sent (snd (call_json strict_env (init (VStr ''abc123'')) ''API_GetUserCompletedGames.php?''
                  [(''u'', VStr ''someone'')] empty_world))
     = [\<lparr>req_url = ''https://retroachievements.org/API/API_GetUserCompletedGames.php?'',
         req_params = [(''u'', VStr ''someone''), (''y'', VStr ''abc123'')],
         req_timeout = VInt 30, req_headers = None\<rparr>]"
  by (simp add: get_user_completed_games_def warn_def strict_env_def example_env_def
        empty_world_def call_json_eq Let_def BASE_URL_def init_def)

lemma invoke_warned:
  assumes "\<forall>shown x. warning_action env shown x = Show"
  shows "warned (snd (invoke env self call w)) \<noteq> warned w
     \<longleftrightarrow> (case call of
            Get_user_progress user game \<Rightarrow> True
          | Get_user_summary user recent_games recent_cheevos \<Rightarrow> True
          | Get_user_completed_games user \<Rightarrow> True
          | _ \<Rightarrow> False)"
  using assms
  by (cases call)
     (simp_all add: wrapper_defs call_json_eq Let_def warn_def split: option.splits)

lemma invoke_ignores_filter:
  assumes "case call of
             Get_user_progress user game \<Rightarrow> False
           | Get_user_summary user recent_games recent_cheevos \<Rightarrow> False
           | Get_user_completed_games user \<Rightarrow> False
           | _ \<Rightarrow> True"
  shows "invoke (env\<lparr>warning_action := f\<rparr>) self call w = invoke env self call w"
  using assms
  by (cases call)
     (simp_all add: wrapper_defs call_json_eq Let_def split: option.splits sum.splits)

lemma invoke_shows_nothing:
  assumes "case call of
             Get_user_progress user game \<Rightarrow> False
           | Get_user_summary user recent_games recent_cheevos \<Rightarrow> False
           | Get_user_completed_games user \<Rightarrow> False
           | _ \<Rightarrow> True"
  shows "warned (snd (invoke env self call w)) = warned w"
  using assms
  by (cases call)
     (simp_all add: wrapper_defs call_json_eq Let_def split: option.splits sum.splits)

text \<open>
  Claim C8, amended. Exactly three wrappers call \<open>warnings.warn\<close>: \<open>get_user_progress\<close>,
  \<open>get_user_summary\<close> and \<open>get_user_completed_games\<close>. Under a filter that shows every
  warning these are the calls that add to the warnings shown, and every other wrapper
  behaves the same under any filter. What each of the three does is decided by the filter's
  action for its advisory. When the action is not \<open>error\<close>, the wrapper returns exactly
  what it would return without the advisory (for \<open>get_user_progress\<close>: the validation of
  the game argument, then the request) and leaves the same world, the advisory shown
  apart. When the action is \<open>error\<close>, the wrapper ends with the advisory raised as an
  exception, and the world is unchanged: no request is sent.
\<close>

theorem advisory_wrappers:
  "((\<forall>shown x. warning_action env shown x = Show) \<longrightarrow>
      (warned (snd (invoke env self call w)) \<noteq> warned w
         \<longleftrightarrow> (case call of
                Get_user_progress user game \<Rightarrow> True
              | Get_user_summary user recent_games recent_cheevos \<Rightarrow> True
              | Get_user_completed_games user \<Rightarrow> True
              | _ \<Rightarrow> False)))
   \<and> ((case call of
          Get_user_progress user game \<Rightarrow> False
        | Get_user_summary user recent_games recent_cheevos \<Rightarrow> False
        | Get_user_completed_games user \<Rightarrow> False
        | _ \<Rightarrow> True) \<longrightarrow>
       invoke (env\<lparr>warning_action := f\<rparr>) self call w = invoke env self call w
       \<and> warned (snd (invoke env self call w)) = warned w)
   \<and> (let x = \<lparr>message = user_summary_advisory, warning_category = Warning, stacklevel = 2\<rparr>;
           twin = call_json env self ''API_GetUserSummary.php?''
                    [(''u'', user), (''g'', arg_or (VInt 0) recent_games),
                     (''a'', arg_or (VInt 10) recent_cheevos)] w
       in get_user_summary env self user recent_games recent_cheevos w
            = (case warning_action env (warned w) x of
                 Raise \<Rightarrow> (Inl (WarningError Warning user_summary_advisory), w)
               | Ignore \<Rightarrow> twin
               | Show \<Rightarrow> (fst twin, (snd twin)\<lparr>warned := warned w @ [x]\<rparr>)))
   \<and> (let x = \<lparr>message = user_completed_games_advisory,
                 warning_category = DeprecationWarning, stacklevel = 2\<rparr>;
           twin = call_json env self ''API_GetUserCompletedGames.php?'' [(''u'', user)] w
       in get_user_completed_games env self user w
            = (case warning_action env (warned w) x of
                 Raise \<Rightarrow> (Inl (WarningError DeprecationWarning user_completed_games_advisory), w)
               | Ignore \<Rightarrow> twin
               | Show \<Rightarrow> (fst twin, (snd twin)\<lparr>warned := warned w @ [x]\<rparr>)))
   \<and> (let x = \<lparr>message = user_progress_advisory, warning_category = Warning, stacklevel = 2\<rparr>;
           twin = (if \<not> is_valid_game_csv self game
                   then (Inl (ValueError ''Invalid game ID or CSV format''), w)
                   else call_json env self ''API_GetUserProgress.php?''
                          [(''u'', user), (''i'', game)] w)
       in get_user_progress env self user game w
            = (case warning_action env (warned w) x of
                 Raise \<Rightarrow> (Inl (WarningError Warning user_progress_advisory), w)
               | Ignore \<Rightarrow> twin
               | Show \<Rightarrow> (fst twin, (snd twin)\<lparr>warned := warned w @ [x]\<rparr>)))"
proof (intro conjI impI)
  assume "\<forall>shown x. warning_action env shown x = Show"
  then show "warned (snd (invoke env self call w)) \<noteq> warned w
         \<longleftrightarrow> (case call of
                Get_user_progress user game \<Rightarrow> True
              | Get_user_summary user recent_games recent_cheevos \<Rightarrow> True
              | Get_user_completed_games user \<Rightarrow> True
              | _ \<Rightarrow> False)"
    by (rule invoke_warned)
next
  assume a: "case call of
          Get_user_progress user game \<Rightarrow> False
        | Get_user_summary user recent_games recent_cheevos \<Rightarrow> False
        | Get_user_completed_games user \<Rightarrow> False
        | _ \<Rightarrow> True"
  show "invoke (env\<lparr>warning_action := f\<rparr>) self call w = invoke env self call w"
    using a by (rule invoke_ignores_filter)
  show "warned (snd (invoke env self call w)) = warned w"
    using a by (rule invoke_shows_nothing)
qed (simp_all add: get_user_summary_def get_user_completed_games_def get_user_progress_def
      call_json_eq Let_def warn_def split: action.splits)

theorem advisory_wrappers_witness:
  "warned (snd (invoke example_env (init (VStr ''abc123'')) (Get_game (VInt 10)) empty_world)) = []
   \<and> invoke strict_env (init (VStr ''abc123'')) (Get_game (VInt 10)) empty_world
     = invoke example_env (init (VStr ''abc123'')) (Get_game (VInt 10)) empty_world
   \<and> fst (get_user_summary example_env (init (VStr ''abc123'')) (VStr ''someone'') None None
            empty_world) = Inr (RJson (JArray []))
   \<and> warned (snd (get_user_summary example_env (init (VStr ''abc123'')) (VStr ''someone'') None
                    None empty_world))
     = [\<lparr>message = user_summary_advisory, warning_category = Warning, stacklevel = 2\<rparr>]
   \<and> sent (snd (get_user_summary example_env (init (VStr ''abc123'')) (VStr ''someone'') None None
                  empty_world))
     = [\<lparr>req_url = ''https://retroachievements.org/API/API_GetUserSummary.php?'',
         req_params = [(''u'', VStr ''someone''), (''g'', VInt 0), (''a'', VInt 10),
                       (''y'', VStr ''abc123'')],
         req_timeout = VInt 30, req_headers = None\<rparr>]
   \<and> get_user_summary strict_env (init (VStr ''abc123'')) (VStr ''someone'') None None empty_world
     = (Inl (WarningError Warning user_summary_advisory), empty_world)
   \<and> get_user_completed_games strict_env (init (VStr ''abc123'')) (VStr ''someone'') empty_world
     = (Inl (WarningError DeprecationWarning user_completed_games_advisory), empty_world)
   \<and> fst (get_user_progress example_env (init (VStr ''abc123'')) (VStr ''someone'')
            (VStr ''1, 2'') empty_world) = Inr (RJson (JArray []))
   \<and> fst (get_user_progress example_env (init (VStr ''abc123'')) (VStr ''someone'')
            (VStr ''12a'') empty_world) = Inl (ValueError ''Invalid game ID or CSV format'')
   \<and> get_user_progress strict_env (init (VStr ''abc123'')) (VStr ''someone'') (VStr ''1, 2'')
       empty_world
     = (Inl (WarningError Warning user_progress_advisory), empty_world)
   \<and> warned (snd (invoke example_env (init (VStr ''abc123''))
                    (Get_user_completed_games (VStr ''someone'')) empty_world))
     \<noteq> warned empty_world"
proof -
  have v1: "is_valid_game_csv (init (VStr ''abc123'')) (VStr ''1, 2'')"
    by (simp add: is_valid_game_csv_def str_isdigit_def str_strip_def isdigit_char_def
          isspace_char_def)
  have v2: "\<not> is_valid_game_csv (init (VStr ''abc123'')) (VStr ''12a'')"
    by (simp add: is_valid_game_csv_def str_isdigit_def str_strip_def isdigit_char_def
          isspace_char_def)
  have sh: "\<forall>shown x. warning_action example_env shown x = Show"
    by (simp add: example_env_def)
  have st: "example_env\<lparr>warning_action := (\<lambda>shown x. Raise)\<rparr> = strict_env"
    by (simp add: strict_env_def)
  have ra: "\<And>shown x. warning_action strict_env shown x = Raise"
    by (simp add: strict_env_def)
  have sa: "\<And>shown x. warning_action example_env shown x = Show"
    by (simp add: example_env_def)
  note a = advisory_wrappers [where env = example_env and self = "init (VStr ''abc123'')"
      and call = "Get_game (VInt 10)" and w = empty_world and user = "VStr ''someone''"
      and recent_games = None and recent_cheevos = None and game = "VStr ''1, 2''"
      and f = "\<lambda>shown x. Raise"]
  note b = advisory_wrappers [where env = example_env and self = "init (VStr ''abc123'')"
      and call = "Get_game (VInt 10)" and w = empty_world and user = "VStr ''someone''"
      and recent_games = None and recent_cheevos = None and game = "VStr ''12a''"
      and f = "\<lambda>shown x. Raise"]
  note c = advisory_wrappers [where env = strict_env and self = "init (VStr ''abc123'')"
      and call = "Get_game (VInt 10)" and w = empty_world and user = "VStr ''someone''"
      and recent_games = None and recent_cheevos = None and game = "VStr ''1, 2''"
      and f = "\<lambda>shown x. Raise"]
  have "warned (snd (invoke example_env (init (VStr ''abc123''))
                      (Get_user_completed_games (VStr ''someone'')) empty_world))
          \<noteq> warned empty_world
        \<longleftrightarrow> (case Get_user_completed_games (VStr ''someone'') of
               Get_user_progress user game \<Rightarrow> True
             | Get_user_summary user recent_games recent_cheevos \<Rightarrow> True
             | Get_user_completed_games user \<Rightarrow> True
             | _ \<Rightarrow> False)"
    using sh
      advisory_wrappers [where env = example_env and self = "init (VStr ''abc123'')"
        and call = "Get_user_completed_games (VStr ''someone'')" and w = empty_world]
    by blast
  then have c0: "warned (snd (invoke example_env (init (VStr ''abc123''))
                      (Get_user_completed_games (VStr ''someone'')) empty_world))
          \<noteq> warned empty_world"
    by simp
  have g1: "invoke strict_env (init (VStr ''abc123'')) (Get_game (VInt 10)) empty_world
     = invoke example_env (init (VStr ''abc123'')) (Get_game (VInt 10)) empty_world"
    and g2: "warned (snd (invoke example_env (init (VStr ''abc123'')) (Get_game (VInt 10))
                            empty_world)) = warned empty_world"
    using a by (simp_all add: st)
  have s1: "get_user_summary example_env (init (VStr ''abc123'')) (VStr ''someone'') None None
              empty_world
      = (fst (call_json example_env (init (VStr ''abc123'')) ''API_GetUserSummary.php?''
                [(''u'', VStr ''someone''), (''g'', arg_or (VInt 0) None),
                 (''a'', arg_or (VInt 10) None)] empty_world),
         (snd (call_json example_env (init (VStr ''abc123'')) ''API_GetUserSummary.php?''
                [(''u'', VStr ''someone''), (''g'', arg_or (VInt 0) None),
                 (''a'', arg_or (VInt 10) None)] empty_world))
           \<lparr>warned := warned empty_world
              @ [\<lparr>message = user_summary_advisory, warning_category = Warning,
                   stacklevel = 2\<rparr>]\<rparr>)"
    using a by (simp add: sa Let_def)
  have p1: "get_user_progress example_env (init (VStr ''abc123'')) (VStr ''someone'')
              (VStr ''1, 2'') empty_world
      = (fst (call_json example_env (init (VStr ''abc123'')) ''API_GetUserProgress.php?''
                [(''u'', VStr ''someone''), (''i'', VStr ''1, 2'')] empty_world),
         (snd (call_json example_env (init (VStr ''abc123'')) ''API_GetUserProgress.php?''
                [(''u'', VStr ''someone''), (''i'', VStr ''1, 2'')] empty_world))
           \<lparr>warned := warned empty_world
              @ [\<lparr>message = user_progress_advisory, warning_category = Warning,
                   stacklevel = 2\<rparr>]\<rparr>)"
    using a v1 by (simp add: sa Let_def)
  have p2: "fst (get_user_progress example_env (init (VStr ''abc123'')) (VStr ''someone'')
              (VStr ''12a'') empty_world) = Inl (ValueError ''Invalid game ID or CSV format'')"
    using b v2 by (simp add: sa Let_def)
  have r1: "get_user_summary strict_env (init (VStr ''abc123'')) (VStr ''someone'') None None
              empty_world = (Inl (WarningError Warning user_summary_advisory), empty_world)"
    and r2: "get_user_completed_games strict_env (init (VStr ''abc123'')) (VStr ''someone'')
              empty_world
            = (Inl (WarningError DeprecationWarning user_completed_games_advisory), empty_world)"
    and r3: "get_user_progress strict_env (init (VStr ''abc123'')) (VStr ''someone'')
              (VStr ''1, 2'') empty_world
            = (Inl (WarningError Warning user_progress_advisory), empty_world)"
    using c by (simp_all add: ra Let_def)
  have c1: "warned (snd (invoke example_env (init (VStr ''abc123'')) (Get_game (VInt 10))
                            empty_world)) = []"
    using g2 by (simp add: empty_world_def)
  have c3: "fst (get_user_summary example_env (init (VStr ''abc123'')) (VStr ''someone'') None None
            empty_world) = Inr (RJson (JArray []))"
    unfolding s1 by (simp add: call_json_eq Let_def example_env_def)
  have c4: "warned (snd (get_user_summary example_env (init (VStr ''abc123'')) (VStr ''someone'')
                    None None empty_world))
     = [\<lparr>message = user_summary_advisory, warning_category = Warning, stacklevel = 2\<rparr>]"
    unfolding s1 by (simp add: empty_world_def)
  have c5: "sent (snd (get_user_summary example_env (init (VStr ''abc123'')) (VStr ''someone'') None
                  None empty_world))
     = [\<lparr>req_url = ''https://retroachievements.org/API/API_GetUserSummary.php?'',
         req_params = [(''u'', VStr ''someone''), (''g'', VInt 0), (''a'', VInt 10),
                       (''y'', VStr ''abc123'')],
         req_timeout = VInt 30, req_headers = None\<rparr>]"
    unfolding s1 by (simp add: call_json_eq Let_def arg_or_def BASE_URL_def empty_world_def init_def)
  have c8: "fst (get_user_progress example_env (init (VStr ''abc123'')) (VStr ''someone'')
            (VStr ''1, 2'') empty_world) = Inr (RJson (JArray []))"
    unfolding p1 by (simp add: call_json_eq Let_def example_env_def)
  show ?thesis
    by (intro conjI c1 g1 c3 c4 c5 r1 r2 c8 p2 r3 c0)
qed

end
